theory Spec2Isabelle
  imports Main
begin

section \<open>The MATLAB finder of \<open>setup.py\<close>\<close>

text \<open>
  The development embeds class \<open>_MatlabFinder\<close> of \<open>setup.py\<close>. The instance
  attributes that the methods assign become a record, every \<open>raise\<close> becomes
  a value of type \<open>error\<close>, and everything the methods read from the machine
  (platform name, interpreter version, environment variables, file system,
  XML parser, Windows registry, working directory) is a field of a record
  \<open>host\<close>. Python strings are \<open>string\<close>; a value that may be \<open>None\<close> is a
  \<open>string option\<close>.
\<close>

subsection \<open>Python string operations\<close>

text \<open>\<open>s.startswith(p)\<close> and \<open>s.endswith(e)\<close>.\<close>

definition startswith :: "string \<Rightarrow> string \<Rightarrow> bool" where
  "startswith s p = (take (length p) s = p)"

definition endswith :: "string \<Rightarrow> string \<Rightarrow> bool" where
  "endswith s e = (length e \<le> length s \<and> drop (length s - length e) s = e)"

text \<open>\<open>s.split(c)\<close> for a one-character separator: the empty string gives \<open>['']\<close>.\<close>

fun split_sep :: "char \<Rightarrow> string \<Rightarrow> string list" where
  "split_sep c [] = [[]]"
| "split_sep c (x # xs) =
     (if x = c then [] # split_sep c xs
      else (case split_sep c xs of
              [] \<Rightarrow> [[x]]
            | y # ys \<Rightarrow> (x # y) # ys))"

text \<open>\<open>sep.join(xs)\<close>.\<close>

fun str_join :: "string \<Rightarrow> string list \<Rightarrow> string" where
  "str_join sep [] = []"
| "str_join sep [x] = x"
| "str_join sep (x # y # ys) = x @ sep @ str_join sep (y # ys)"

text \<open>\<open>s.find(c, start)\<close>: \<open>None\<close> stands for \<open>-1\<close>.\<close>

fun find_from :: "string \<Rightarrow> char \<Rightarrow> nat \<Rightarrow> nat option" where
  "find_from [] c start = None"
| "find_from (x # xs) c start =
     (case start of
        Suc k \<Rightarrow> map_option Suc (find_from xs c k)
      | 0 \<Rightarrow> (if x = c then Some 0 else map_option Suc (find_from xs c 0)))"

text \<open>\<open>s.lower()\<close> on the ASCII letters.\<close>

definition lower_char :: "char \<Rightarrow> char" where
  "lower_char c =
     (let n = (of_char c :: nat)
      in if 65 \<le> n \<and> n \<le> 90 then char_of (n + 32) else c)"

definition lower :: "string \<Rightarrow> string" where
  "lower s = map lower_char s"

text \<open>The decimal digits of a non-negative \<open>int\<close>, as an f-string prints it.\<close>

fun str_of_nat :: "nat \<Rightarrow> string" where
  "str_of_nat n =
     (if n < 10 then [char_of (48 + n)]
      else str_of_nat (n div 10) @ [char_of (48 + n mod 10)])"

declare str_of_nat.simps [simp del]

text \<open>Truth value of a string or \<open>None\<close>: \<open>None\<close> and \<open>''\<close> are false.\<close>

fun truthy :: "string option \<Rightarrow> bool" where
  "truthy None = False"
| "truthy (Some s) = (s \<noteq> [])"

subsection \<open>\<open>os.path\<close>\<close>

text \<open>
  \<open>posixpath.join\<close> and \<open>posixpath.normpath\<close> (Linux and macOS), with \<open>os.sep\<close>
  \<open>/\<close>, \<open>os.pathsep\<close> \<open>:\<close> and \<open>os.pardir\<close> \<open>..\<close>.
\<close>

definition posix_sep :: string where
  "posix_sep = ''/''"

definition posix_pathsep :: char where
  "posix_pathsep = CHR '':''"

definition pardir :: string where
  "pardir = ''..''"

definition posix_join_step :: "string \<Rightarrow> string \<Rightarrow> string" where
  "posix_join_step path b =
     (if startswith b posix_sep then b
      else if path = [] \<or> endswith path posix_sep then path @ b
      else path @ posix_sep @ b)"

definition posixpath_join :: "string \<Rightarrow> string list \<Rightarrow> string" where
  "posixpath_join a p = foldl posix_join_step a p"

fun normpath_comps :: "bool \<Rightarrow> string list \<Rightarrow> string list \<Rightarrow> string list" where
  "normpath_comps initial_slashes [] new_comps = new_comps"
| "normpath_comps initial_slashes (cmp # comps) new_comps =
     (if cmp = [] \<or> cmp = ''.'' then normpath_comps initial_slashes comps new_comps
      else if cmp \<noteq> ''..'' \<or> (\<not> initial_slashes \<and> new_comps = [])
              \<or> (new_comps \<noteq> [] \<and> last new_comps = ''..'')
      then normpath_comps initial_slashes comps (new_comps @ [cmp])
      else if new_comps \<noteq> [] then normpath_comps initial_slashes comps (butlast new_comps)
      else normpath_comps initial_slashes comps new_comps)"

definition posixpath_normpath :: "string \<Rightarrow> string" where
  "posixpath_normpath path =
     (if path = [] then ''.''
      else
        let initial_slashes =
              (if startswith path ''/'' then
                 (if startswith path ''//'' \<and> \<not> startswith path ''///'' then 2 else 1)
               else (0::nat));
            comps = normpath_comps (initial_slashes \<noteq> 0) (split_sep (CHR ''/'') path) [];
            path' = str_join ''/'' comps;
            path'' = (if initial_slashes \<noteq> 0 then replicate initial_slashes (CHR ''/'') @ path'
                      else path')
        in if path'' = [] then ''.'' else path'')"

text \<open>
  \<open>ntpath.splitdrive\<close> and \<open>ntpath.join\<close> (Windows) of the supported
  interpreters, Python 3.8 and 3.9. The separator is the backslash, character
  \<open>0x5C\<close>; the slash is accepted as a separator too.
\<close>

definition nt_sep :: char where
  "nt_sep = CHR 0x5C"

definition nt_seps :: "char set" where
  "nt_seps = {CHR 0x5C, CHR ''/''}"

definition ntpath_splitdrive :: "string \<Rightarrow> string \<times> string" where
  "ntpath_splitdrive p =
     (if 2 \<le> length p then
        let normp = map (\<lambda>c. if c = CHR ''/'' then nt_sep else c) p in
        if take 2 normp = [nt_sep, nt_sep] \<and> take 1 (drop 2 normp) \<noteq> [nt_sep] then
          (case find_from normp nt_sep 2 of
             None \<Rightarrow> ([], p)
           | Some index \<Rightarrow>
               (case find_from normp nt_sep (index + 1) of
                  None \<Rightarrow> (p, [])
                | Some index2 \<Rightarrow>
                    if index2 = index + 1 then ([], p)
                    else (take index2 p, drop index2 p)))
        else if take 1 (drop 1 normp) = '':'' then (take 2 p, drop 2 p)
        else ([], p)
      else ([], p))"

definition nt_join_step :: "string \<times> string \<Rightarrow> string \<Rightarrow> string \<times> string" where
  "nt_join_step r p =
     (let result_drive = fst r; result_path = snd r;
          p_drive = fst (ntpath_splitdrive p); p_path = snd (ntpath_splitdrive p)
      in if p_path \<noteq> [] \<and> hd p_path \<in> nt_seps then
           ((if p_drive \<noteq> [] \<or> result_drive = [] then p_drive else result_drive), p_path)
         else if p_drive \<noteq> [] \<and> p_drive \<noteq> result_drive
                 \<and> lower p_drive \<noteq> lower result_drive then
           (p_drive, p_path)
         else
           ((if p_drive \<noteq> [] \<and> p_drive \<noteq> result_drive then p_drive else result_drive),
            (if result_path \<noteq> [] \<and> last result_path \<notin> nt_seps
             then result_path @ [nt_sep] else result_path) @ p_path))"

definition ntpath_join :: "string \<Rightarrow> string list \<Rightarrow> string" where
  "ntpath_join path paths =
     (let r = foldl nt_join_step (ntpath_splitdrive path) paths;
          result_drive = fst r; result_path = snd r
      in if result_path \<noteq> [] \<and> hd result_path \<notin> nt_seps
            \<and> result_drive \<noteq> [] \<and> last result_drive \<noteq> CHR '':''
         then result_drive @ [nt_sep] @ result_path
         else result_drive @ result_path)"

subsection \<open>Class constants\<close>

definition PLATFORM_DICT :: "string \<rightharpoonup> string" where
  "PLATFORM_DICT = map_of
     [(''Windows'', ''PATH''),
      (''Linux'', ''LD_LIBRARY_PATH''),
      (''Darwin'', ''DYLD_LIBRARY_PATH'')]"

definition MATLAB_REL :: string where
  "MATLAB_REL = ''R2022a''"

definition MATLAB_VER :: string where
  "MATLAB_VER = ''9.12''"

definition SUPPORTED_PYTHON_VERSIONS :: "string set" where
  "SUPPORTED_PYTHON_VERSIONS = {''3.8'', ''3.9''}"

definition VER_TO_REL :: "string \<rightharpoonup> string" where
  "VER_TO_REL = map_of
     [(''9.6'', ''R2019a''),
      (''9.7'', ''R2019b''),
      (''9.8'', ''R2020a''),
      (''9.9'', ''R2020b''),
      (''9.10'', ''R2021a''),
      (''9.11'', ''R2021b''),
      (''9.12'', ''R2022a'')]"

definition DEFAULT_INSTALLS :: "string \<rightharpoonup> string" where
  "DEFAULT_INSTALLS = map_of
     [(''Darwin'', ''/Applications/MATLAB_'' @ MATLAB_REL @ ''.app''),
      (''Linux'', ''/usr/local/MATLAB/'' @ MATLAB_REL)]"

subsection \<open>Errors\<close>

text \<open>
  One constructor for each message template of the class, carrying the
  arguments that the \<open>raise\<close> statement formats into it. \<open>set_path\<close> is raised at
  two places, by \<open>_create_path_list\<close> and at the end of the search-path scan,
  with the same arguments. \<open>ParseError\<close> is what \<open>xml.parse\<close> raises and
  \<open>KeyError\<close> what a dictionary subscript raises. \<open>OSError\<close> is what \<open>open\<close>
  raises for a path (by cause and platform it is one of the subclasses
  \<open>FileNotFoundError\<close>, \<open>NotADirectoryError\<close>, \<open>IsADirectoryError\<close> and
  \<open>PermissionError\<close>), and \<open>UnicodeEncodeError\<close> what writing a text raises.
\<close>

datatype error =
    unsupported_platform string
  | unsupported_python string string
  | set_path string string
  | no_windows_install string
  | no_compatible_matlab "string list" string
  | no_matlab
  | incompatible_ver string string
  | minimum_required
  | dir_not_found string
  | ParseError string
  | KeyError string
  | OSError string
  | UnicodeEncodeError string

definition install_compatible :: string where
  "install_compatible = ''To install a compatible version, call python -m pip install matlabengine==''"

text \<open>The text of the \<open>RuntimeError\<close>.\<close>

fun message :: "error \<Rightarrow> string" where
  "message (unsupported_platform p) = p @ '' is not a supported platform.''"
| "message (unsupported_python python supported) =
     python @ '' is not supported. The supported Python versions are '' @ supported @ ''.''"
| "message (set_path path_nm ar) =
     ''MATLAB installation not found in '' @ path_nm @ ''. Add matlabroot/bin/'' @ ar
       @ '' to '' @ path_nm @ ''.''"
| "message (no_windows_install err) =
     ''MATLAB installation not found in Windows Registry:'' @ '' '' @ err"
| "message (no_compatible_matlab found_vers hint) =
     ''No compatible MATLAB installation found in Windows Registry. This release of ''
       @ ''MATLAB Engine API for Python is compatible with version '' @ MATLAB_VER
       @ ''. The found versions were'' @ '' '' @ str_join '', '' found_vers @ ''. ''
       @ install_compatible @ hint @ ''.''"
| "message no_matlab = ''No MATLAB installation found in Windows Registry.''"
| "message (incompatible_ver ver found) =
     ''MATLAB version '' @ ver
       @ '' was found, but MATLAB Engine API for Python is not compatible with it. ''
       @ install_compatible @ found @ ''.''"
| "message minimum_required =
     ''No compatible version of MATLAB was found. This feature supports MATLAB R2019a and later.''"
| "message (dir_not_found root) = ''Directory not found: '' @ '' '' @ root"
| "message (ParseError file) = file"
| "message (KeyError k) = k"
| "message (OSError file) = file"
| "message (UnicodeEncodeError txt) = txt"

subsection \<open>The machine and the instance\<close>

datatype node = Directory | RegularFile

text \<open>
  What \<open>xml.parse(path).getroot()\<close> gives: a parse error, or the children of
  the root element in document order, each with its tag and its text
  (\<open>None\<close> for an element without text).
\<close>

datatype xml_doc = Malformed | Document "(string \<times> string option) list"

text \<open>
  \<open>platform_system\<close> is \<open>platform.system()\<close>, \<open>mac_ver_machine\<close> is
  \<open>platform.mac_ver()[-1]\<close>, \<open>version_major\<close> and \<open>version_minor\<close> are
  \<open>sys.version_info\<close>, \<open>str_supported\<close> is \<open>str(SUPPORTED_PYTHON_VERSIONS)\<close> (the
  order in which a set prints is the interpreter's), \<open>environ\<close> is \<open>os.environ\<close>,
  \<open>fs\<close> tells what a path names, \<open>xml_parse\<close> is the parser's result on a file.
  \<open>reg_matlab_key\<close> is the outcome of connecting to the registry and opening
  the \<open>MATLAB\<close> key of MathWorks: the text of the \<open>OSError\<close>, or the subkeys in
  the order \<open>EnumKey\<close> enumerates them. \<open>reg_matlabroot k\<close> is the outcome of
  opening subkey \<open>k\<close> and querying its value \<open>MATLABROOT\<close>. \<open>getcwd\<close> is
  \<open>os.getcwd()\<close>. \<open>can_encode\<close> tells which characters the encoding of text
  files can encode, and \<open>open_denied\<close> which paths the machine refuses to open
  for writing although their directory is there.
\<close>

record host =
  platform_system :: string
  mac_ver_machine :: string
  version_major :: nat
  version_minor :: nat
  str_supported :: string
  environ :: "string \<rightharpoonup> string"
  fs :: "string \<rightharpoonup> node"
  xml_parse :: "string \<Rightarrow> xml_doc"
  reg_matlab_key :: "string + string list"
  reg_matlabroot :: "string \<Rightarrow> string + string"
  getcwd :: string
  can_encode :: "char \<Rightarrow> bool"
  open_denied :: "string \<Rightarrow> bool"

definition path_exists :: "host \<Rightarrow> string \<Rightarrow> bool" where
  "path_exists h p = (fs h p \<noteq> None)"

definition isfile :: "host \<Rightarrow> string \<Rightarrow> bool" where
  "isfile h p = (fs h p = Some RegularFile)"

definition isdir :: "host \<Rightarrow> string \<Rightarrow> bool" where
  "isdir h p = (fs h p = Some Directory)"

text \<open>The instance attributes, with the class attributes as initial values.\<close>

record finder =
  arch :: string
  path_name :: string
  python_ver :: string
  platform :: string
  found_matlab :: "string option"

definition init_finder :: finder where
  "init_finder =
     \<lparr>arch = [], path_name = [], python_ver = [], platform = [], found_matlab = Some []\<rparr>"

text \<open>The text files written so far, by path.\<close>

type_synonym store = "string \<rightharpoonup> string"

subsection \<open>The methods\<close>

text \<open>
  A method takes the machine and the instance and returns an error or its
  result, with the instance when it assigns attributes. The methods of the
  search-path scan are reached on Linux and macOS only, \<open>run\<close> taking the
  registry on Windows, so their \<open>os.path\<close> is \<open>posixpath\<close>.
\<close>

definition set_platform_and_arch :: "host \<Rightarrow> finder \<Rightarrow> error + finder" where
  "set_platform_and_arch h s =
     (let s1 = s\<lparr>platform := platform_system h\<rparr> in
      case PLATFORM_DICT (platform s1) of
        None \<Rightarrow> Inl (unsupported_platform (platform s1))
      | Some pn \<Rightarrow>
          let s2 = s1\<lparr>path_name := pn\<rparr> in
          if platform s2 = ''Windows'' then Inr (s2\<lparr>arch := ''win64''\<rparr>)
          else if platform s2 = ''Linux'' then Inr (s2\<lparr>arch := ''glnxa64''\<rparr>)
          else if platform s2 = ''Darwin'' then
            (if mac_ver_machine h = ''arm64'' then Inr (s2\<lparr>arch := ''maca64''\<rparr>)
             else Inr (s2\<lparr>arch := ''maci64''\<rparr>))
          else Inl (unsupported_platform (platform s2)))"

definition set_python_version :: "host \<Rightarrow> finder \<Rightarrow> error + finder" where
  "set_python_version h s =
     (let s1 = s\<lparr>python_ver := str_of_nat (version_major h) @ ''.'' @ str_of_nat (version_minor h)\<rparr>
      in if python_ver s1 \<notin> SUPPORTED_PYTHON_VERSIONS
         then Inl (unsupported_python (python_ver s1) (str_supported h))
         else Inr s1)"

definition unix_default_install_exists :: "host \<Rightarrow> finder \<Rightarrow> error + bool" where
  "unix_default_install_exists h s =
     (case DEFAULT_INSTALLS (platform s) of
        None \<Rightarrow> Inl (KeyError (platform s))
      | Some path \<Rightarrow> Inr (path_exists h path))"

text \<open>
  \<open>_create_path_list\<close>. It is reached on Linux and macOS only, where
  \<open>os.pathsep\<close> is the colon.
\<close>

definition create_path_list :: "host \<Rightarrow> finder \<Rightarrow> error + string list" where
  "create_path_list h s =
     (let path_dirs =
            (case environ h (path_name s) of
               Some path_string \<Rightarrow> [] @ split_sep posix_pathsep path_string
             | None \<Rightarrow> [])
      in if path_dirs = [] then Inl (set_path (path_name s) (arch s))
         else Inr path_dirs)"

text \<open>
  \<open>verify_matlab_release\<close>. The \<open>for\<close> loop over the children of the root
  element carries the local \<open>matlab_release\<close> and the instance.
\<close>

fun release_loop ::
  "(string \<times> string option) list \<Rightarrow> string option \<times> finder \<Rightarrow> string option \<times> finder" where
  "release_loop [] acc = acc"
| "release_loop (child # children) acc =
     (if fst child = ''release''
      then (snd child, (snd acc)\<lparr>found_matlab := snd child\<rparr>)
      else release_loop children acc)"

definition verify_matlab_release :: "host \<Rightarrow> finder \<Rightarrow> string \<Rightarrow> error + (bool \<times> finder)" where
  "verify_matlab_release h s root =
     (let version_info = posixpath_join root [''VersionInfo.xml''] in
      if \<not> isfile h version_info then Inr (False, s)
      else
        (case xml_parse h version_info of
           Malformed \<Rightarrow> Inl (ParseError version_info)
         | Document tree_root \<Rightarrow>
             let r = release_loop tree_root (Some [], s);
                 matlab_release = fst r
             in if matlab_release \<noteq> Some MATLAB_REL then Inr (False, snd r)
                else Inr (True, snd r)))"

text \<open>\<open>_get_matlab_root_from_unix_bin\<close>; the empty string says that nothing was found.\<close>

definition get_matlab_root_from_unix_bin ::
  "host \<Rightarrow> finder \<Rightarrow> string \<Rightarrow> error + (string \<times> finder)" where
  "get_matlab_root_from_unix_bin h s dir =
     (let matlab_path = posixpath_join dir [''MATLAB''];
          possible_root = posixpath_normpath (posixpath_join dir [pardir, pardir])
      in if isfile h matlab_path then
           (case verify_matlab_release h s possible_root of
              Inl e \<Rightarrow> Inl e
            | Inr r \<Rightarrow> Inr (if fst r then possible_root else [], snd r))
         else Inr ([], s))"

text \<open>
  \<open>search_path_for_directory_unix\<close>. Its two \<open>while\<close> loops run over the rest
  of \<open>endings\<close> and the rest of \<open>path_dirs\<close>, carrying \<open>matlab_root\<close> and the instance.
\<close>

fun scan_endings ::
  "host \<Rightarrow> string \<Rightarrow> string list \<Rightarrow> string \<times> finder \<Rightarrow> error + (string \<times> finder)" where
  "scan_endings h path [] ms = Inr ms"
| "scan_endings h path (ending # endings) ms =
     (if fst ms \<noteq> [] then Inr ms
      else if endswith path ending then
        (case get_matlab_root_from_unix_bin h (snd ms) path of
           Inl e \<Rightarrow> Inl e
         | Inr ms' \<Rightarrow> scan_endings h path endings ms')
      else scan_endings h path endings ms)"

fun scan_dirs ::
  "host \<Rightarrow> string list \<Rightarrow> string list \<Rightarrow> string \<times> finder \<Rightarrow> error + (string \<times> finder)" where
  "scan_dirs h endings [] ms = Inr ms"
| "scan_dirs h endings (path # path_dirs) ms =
     (if fst ms \<noteq> [] then Inr ms
      else
        (case scan_endings h path endings ms of
           Inl e \<Rightarrow> Inl e
         | Inr ms' \<Rightarrow> scan_dirs h endings path_dirs ms'))"

definition endings_of :: "finder \<Rightarrow> string list" where
  "endings_of s =
     (let dir_to_find = posixpath_join ''bin'' [arch s]
      in [dir_to_find, dir_to_find @ posix_sep])"

definition search_path_for_directory_unix :: "host \<Rightarrow> finder \<Rightarrow> error + (string \<times> finder)" where
  "search_path_for_directory_unix h s =
     (case create_path_list h s of
        Inl e \<Rightarrow> Inl e
      | Inr path_dirs \<Rightarrow>
          (case scan_dirs h (endings_of s) path_dirs ([], s) of
             Inl e \<Rightarrow> Inl e
           | Inr ms \<Rightarrow>
               let matlab_root = fst ms; s' = snd ms in
               if matlab_root = [] then
                 (if truthy (found_matlab s') then
                    (case found_matlab s' of
                       None \<Rightarrow> Inl (set_path (path_name s') (arch s'))
                     | Some fm \<Rightarrow>
                         (case VER_TO_REL fm of
                            Some rel \<Rightarrow> Inl (incompatible_ver rel fm)
                          | None \<Rightarrow> Inl minimum_required))
                  else Inl (set_path (path_name s') (arch s')))
               else if \<not> isdir h matlab_root then Inl (dir_not_found matlab_root)
               else Inr (matlab_root, s')))"

text \<open>
  The registry methods \<open>_find_matlab_key_from_windows_registry\<close>,
  \<open>_get_root_from_version_key\<close> and \<open>get_matlab_root_from_windows_reg\<close>. A key
  is given by its subkeys in enumeration order; the loop carries \<open>key_value\<close>
  and \<open>found_vers\<close>.
\<close>

fun enum_loop :: "string list \<Rightarrow> string \<times> string list \<Rightarrow> string \<times> string list" where
  "enum_loop [] acc = acc"
| "enum_loop (sub_key # rest) acc =
     (let found_vers = snd acc @ [sub_key]
      in if startswith sub_key MATLAB_VER then (sub_key, found_vers)
         else enum_loop rest (fst acc, found_vers))"

definition find_matlab_key_from_windows_registry :: "string list \<Rightarrow> error + string" where
  "find_matlab_key_from_windows_registry key =
     (let r = enum_loop key ([], []);
          key_value = fst r; found_vers = snd r
      in if key_value = [] then
           (if found_vers \<noteq> [] then
              Inl (no_compatible_matlab found_vers (last found_vers))
            else Inl no_matlab)
         else Inr key_value)"

definition get_root_from_version_key :: "host \<Rightarrow> string \<Rightarrow> error + string" where
  "get_root_from_version_key h ver_key =
     (case reg_matlabroot h ver_key of
        Inl err \<Rightarrow> Inl (no_windows_install err)
      | Inr matlab_root \<Rightarrow> Inr matlab_root)"

definition get_matlab_root_from_windows_reg :: "host \<Rightarrow> error + string" where
  "get_matlab_root_from_windows_reg h =
     (case reg_matlab_key h of
        Inl err \<Rightarrow> Inl (no_windows_install err)
      | Inr key \<Rightarrow>
          (case find_matlab_key_from_windows_registry key of
             Inl e \<Rightarrow> Inl e
           | Inr matlab_ver_key \<Rightarrow> get_root_from_version_key h matlab_ver_key))"

text \<open>
  \<open>write_text_file\<close>. \<open>os.path.join\<close> is \<open>ntpath.join\<close> on Windows and
  \<open>posixpath.join\<close> elsewhere. \<open>open(file_location, 'w')\<close> raises, and leaves
  the files as they are, when the directory of the location is not a
  directory, when the location names a directory, or when the machine denies
  it; otherwise it empties the file. Each of the four writes raises when a
  character of its text cannot be encoded; leaving the \<open>with\<close> block then
  closes the file, which holds the text of the writes before. The content of
  a file is the text written: on Windows the text layer stores every newline
  as carriage return and newline. Errors of the device while the text is
  flushed are outside the model.
\<close>

definition os_path_join :: "host \<Rightarrow> string \<Rightarrow> string list \<Rightarrow> string" where
  "os_path_join h = (if platform_system h = ''Windows'' then ntpath_join else posixpath_join)"

definition newline :: string where
  "newline = [CHR 0x0A]"

definition file_location :: "host \<Rightarrow> string" where
  "file_location h = os_path_join h (getcwd h) [''src'', ''matlab'', ''engine'', ''_arch.txt'']"

definition output_dir :: "host \<Rightarrow> string" where
  "output_dir h = os_path_join h (getcwd h) [''src'', ''matlab'', ''engine'']"

definition open_w_fails :: "host \<Rightarrow> bool" where
  "open_w_fails h =
     (isdir h (file_location h) \<or> open_denied h (file_location h) \<or> \<not> isdir h (output_dir h))"

fun write_texts :: "host \<Rightarrow> string \<Rightarrow> string list \<Rightarrow> store \<Rightarrow> (error + unit) \<times> store" where
  "write_texts h f [] st = (Inr (), st)"
| "write_texts h f (t # ts) st =
     (if list_all (can_encode h) t
      then write_texts h f ts (st(f \<mapsto> (case st f of None \<Rightarrow> [] | Some c \<Rightarrow> c) @ t))
      else (Inl (UnicodeEncodeError t), st))"

definition write_text_file ::
  "host \<Rightarrow> finder \<Rightarrow> string \<Rightarrow> store \<Rightarrow> (error + unit) \<times> store" where
  "write_text_file h s matlab_root st =
     (let bin_arch = os_path_join h matlab_root [''bin'', arch s];
          engine_arch = os_path_join h matlab_root
            [''extern'', ''engines'', ''python'', ''dist'', ''matlab'', ''engine'', arch s];
          extern_bin = os_path_join h matlab_root [''extern'', ''bin'', arch s]
      in if open_w_fails h then (Inl (OSError (file_location h)), st)
         else write_texts h (file_location h)
                [arch s @ newline, bin_arch @ newline, engine_arch @ newline, extern_bin]
                (st(file_location h \<mapsto> [])))"

text \<open>
  \<open>run\<close>, up to the call of the build step of \<open>setuptools\<close> that follows the
  discovery. The instance is fresh.
\<close>

definition run :: "host \<Rightarrow> store \<Rightarrow> (error + unit) \<times> store" where
  "run h st =
     (case set_platform_and_arch h init_finder of
        Inl e \<Rightarrow> (Inl e, st)
      | Inr s1 \<Rightarrow>
          (case set_python_version h s1 of
             Inl e \<Rightarrow> (Inl e, st)
           | Inr s2 \<Rightarrow>
               if platform s2 = ''Windows'' then
                 (case get_matlab_root_from_windows_reg h of
                    Inl e \<Rightarrow> (Inl e, st)
                  | Inr matlab_root \<Rightarrow> write_text_file h s2 matlab_root st)
               else
                 (case unix_default_install_exists h s2 of
                    Inl e \<Rightarrow> (Inl e, st)
                  | Inr True \<Rightarrow>
                      (case DEFAULT_INSTALLS (platform s2) of
                         None \<Rightarrow> (Inl (KeyError (platform s2)), st)
                       | Some matlab_root \<Rightarrow> write_text_file h s2 matlab_root st)
                  | Inr False \<Rightarrow>
                      (case search_path_for_directory_unix h s2 of
                         Inl e \<Rightarrow> (Inl e, st)
                       | Inr r \<Rightarrow> write_text_file h (snd r) (fst r) st))))"

subsection \<open>Notions used in the statements\<close>

text \<open>
  What the scan does with one entry of the search path, read off the file
  system: \<open>examined\<close> entries are those handed to \<open>verify_matlab_release\<close>,
  \<open>release_read\<close> is the text of the first \<open>release\<close> child of a root's
  \<open>VersionInfo.xml\<close>, if the file is there, parses, and has such a child.
\<close>

definition possible_root_of :: "string \<Rightarrow> string" where
  "possible_root_of dir = posixpath_normpath (posixpath_join dir [pardir, pardir])"

definition matches :: "string list \<Rightarrow> string \<Rightarrow> bool" where
  "matches endings path = list_ex (endswith path) endings"

definition examined :: "string list \<Rightarrow> host \<Rightarrow> string \<Rightarrow> bool" where
  "examined endings h path =
     (matches endings path \<and> isfile h (posixpath_join path [''MATLAB'']))"

definition malformed :: "host \<Rightarrow> string \<Rightarrow> bool" where
  "malformed h root =
     (isfile h (posixpath_join root [''VersionInfo.xml''])
      \<and> xml_parse h (posixpath_join root [''VersionInfo.xml'']) = Malformed)"

definition release_read :: "host \<Rightarrow> string \<Rightarrow> string option option" where
  "release_read h root =
     (if isfile h (posixpath_join root [''VersionInfo.xml'']) then
        (case xml_parse h (posixpath_join root [''VersionInfo.xml'']) of
           Malformed \<Rightarrow> None
         | Document children \<Rightarrow> map_option snd (find (\<lambda>child. fst child = ''release'') children))
      else None)"

definition passes :: "string list \<Rightarrow> host \<Rightarrow> string \<Rightarrow> bool" where
  "passes endings h path =
     (examined endings h path
      \<and> release_read h (possible_root_of path) = Some (Some MATLAB_REL))"

definition raises :: "string list \<Rightarrow> host \<Rightarrow> string \<Rightarrow> bool" where
  "raises endings h path =
     (examined endings h path \<and> malformed h (possible_root_of path))"

definition recorded :: "string list \<Rightarrow> host \<Rightarrow> string \<Rightarrow> string option option" where
  "recorded endings h path =
     (if examined endings h path then release_read h (possible_root_of path) else None)"

text \<open>
  The release text most recently read along a list of entries, starting from
  what was recorded before.
\<close>

definition most_recent_release ::
  "string list \<Rightarrow> host \<Rightarrow> string list \<Rightarrow> string option \<Rightarrow> string option" where
  "most_recent_release endings h paths fm =
     foldl (\<lambda>fm path. case recorded endings h path of Some t \<Rightarrow> t | None \<Rightarrow> fm) fm paths"

text \<open>
  The newest of a list of version strings, for the claim about the install
  hint: versions are compared as their dot-separated numbers, from the left.
\<close>

definition version_numbers :: "string \<Rightarrow> nat list" where
  "version_numbers v =
     map (foldl (\<lambda>n c. 10 * n + (of_char c - 48)) 0) (split_sep (CHR ''.'') v)"

fun version_le :: "nat list \<Rightarrow> nat list \<Rightarrow> bool" where
  "version_le [] ys = True"
| "version_le (x # xs) [] = False"
| "version_le (x # xs) (y # ys) = (x < y \<or> (x = y \<and> version_le xs ys))"

fun newest_of :: "string \<Rightarrow> string list \<Rightarrow> string" where
  "newest_of v [] = v"
| "newest_of v (w # ws) =
     newest_of (if version_le (version_numbers v) (version_numbers w) then w else v) ws"

definition newest_version :: "string list \<Rightarrow> string" where
  "newest_version vs = (case vs of [] \<Rightarrow> [] | v # ws \<Rightarrow> newest_of v ws)"

text \<open>
  The four lines of the output file for a path separator, and \<open>os.sep\<close>.
\<close>

definition os_sep :: "host \<Rightarrow> string" where
  "os_sep h = (if platform_system h = ''Windows'' then [nt_sep] else posix_sep)"

definition four_lines :: "string \<Rightarrow> string \<Rightarrow> string \<Rightarrow> string" where
  "four_lines sep root ar =
     ar @ newline
     @ root @ sep @ ''bin'' @ sep @ ar @ newline
     @ root @ sep @ ''extern'' @ sep @ ''engines'' @ sep @ ''python'' @ sep @ ''dist'' @ sep
         @ ''matlab'' @ sep @ ''engine'' @ sep @ ar @ newline
     @ root @ sep @ ''extern'' @ sep @ ''bin'' @ sep @ ar"

definition ARCH_TAGS :: "string set" where
  "ARCH_TAGS = {''win64'', ''glnxa64'', ''maci64'', ''maca64''}"

subsection \<open>Example machines\<close>

text \<open>
  A Linux machine with Python 3.9. Under \<open>/opt\<close>: \<open>x\<close> holds release R2021b,
  \<open>y\<close> holds the expected release, \<open>z\<close> holds a \<open>VersionInfo.xml\<close> that does
  not parse, \<open>v\<close> holds one whose \<open>release\<close> element reads \<open>9.11\<close>, and \<open>w\<close>
  holds none. Every one has the \<open>MATLAB\<close> file in \<open>bin/glnxa64\<close>. The working
  directory holds the directory of the output file. Text files take the
  ASCII characters.
\<close>

definition engine_dirs :: "(string \<times> node) list" where
  "engine_dirs =
     [(''/'', Directory), (''/home'', Directory), (''/home/user'', Directory),
      (''/home/user/engine'', Directory), (''/home/user/engine/src'', Directory),
      (''/home/user/engine/src/matlab'', Directory),
      (''/home/user/engine/src/matlab/engine'', Directory)]"

definition ascii :: "char \<Rightarrow> bool" where
  "ascii c = ((of_char c :: nat) < 128)"

definition example_fs :: "string \<rightharpoonup> node" where
  "example_fs = map_of (engine_dirs @
     [(''/opt'', Directory),
      (''/opt/x'', Directory), (''/opt/x/bin'', Directory),
      (''/opt/x/bin/glnxa64'', Directory), (''/opt/x/bin/glnxa64/MATLAB'', RegularFile),
      (''/opt/x/VersionInfo.xml'', RegularFile),
      (''/opt/y'', Directory), (''/opt/y/bin'', Directory),
      (''/opt/y/bin/glnxa64'', Directory), (''/opt/y/bin/glnxa64/MATLAB'', RegularFile),
      (''/opt/y/VersionInfo.xml'', RegularFile),
      (''/opt/z'', Directory), (''/opt/z/bin'', Directory),
      (''/opt/z/bin/glnxa64'', Directory), (''/opt/z/bin/glnxa64/MATLAB'', RegularFile),
      (''/opt/z/VersionInfo.xml'', RegularFile),
      (''/opt/v'', Directory), (''/opt/v/bin'', Directory),
      (''/opt/v/bin/glnxa64'', Directory), (''/opt/v/bin/glnxa64/MATLAB'', RegularFile),
      (''/opt/v/VersionInfo.xml'', RegularFile),
      (''/opt/w'', Directory), (''/opt/w/bin'', Directory),
      (''/opt/w/bin/glnxa64'', Directory), (''/opt/w/bin/glnxa64/MATLAB'', RegularFile)])"

definition example_xml :: "string \<Rightarrow> xml_doc" where
  "example_xml p =
     (if p = ''/opt/x/VersionInfo.xml'' then
        Document [(''version'', Some ''9.11.0.1769968''), (''release'', Some ''R2021b'')]
      else if p = ''/opt/y/VersionInfo.xml'' then
        Document [(''version'', Some ''9.12.0.1884302''), (''release'', Some ''R2022a'')]
      else if p = ''/opt/v/VersionInfo.xml'' then
        Document [(''release'', Some ''9.11'')]
      else Malformed)"

definition linux_host :: host where
  "linux_host =
     \<lparr>platform_system = ''Linux'', mac_ver_machine = [],
      version_major = 3, version_minor = 9, str_supported = ''{'3.8', '3.9'}'',
      environ = [''LD_LIBRARY_PATH'' \<mapsto> ''/opt/x/bin/glnxa64:/opt/y/bin/glnxa64/:/opt/z/bin/glnxa64''],
      fs = example_fs, xml_parse = example_xml,
      reg_matlab_key = Inl ''no registry'', reg_matlabroot = (\<lambda>k. Inl ''no registry''),
      getcwd = ''/home/user/engine'', can_encode = ascii, open_denied = (\<lambda>p. False)\<rparr>"

definition linux_finder :: finder where
  "linux_finder =
     \<lparr>arch = ''glnxa64'', path_name = ''LD_LIBRARY_PATH'', python_ver = ''3.9'',
      platform = ''Linux'', found_matlab = Some []\<rparr>"

text \<open>The same machine with other values of the search-path variable.\<close>

definition with_path :: "string \<Rightarrow> host" where
  "with_path v = linux_host\<lparr>environ := [''LD_LIBRARY_PATH'' \<mapsto> v]\<rparr>"

text \<open>
  A machine whose default install path is a regular file, with nothing below
  it and no search path.
\<close>

definition default_host :: host where
  "default_host =
     linux_host\<lparr>environ := Map.empty,
                fs := map_of (engine_dirs @
                  [(''/usr'', Directory), (''/usr/local'', Directory),
                   (''/usr/local/MATLAB'', Directory),
                   (''/usr/local/MATLAB/R2022a'', RegularFile)])\<rparr>"

text \<open>
  A machine whose only search-path entry passes, under a root whose name
  holds the byte \<open>0xE9\<close>, which is not ASCII: Python reads such a byte of the
  environment as a lone surrogate, which no text file can encode.
\<close>

definition undecodable_root :: string where
  "undecodable_root = ''/opt/m'' @ [CHR 0xE9]"

definition undecodable_host :: host where
  "undecodable_host =
     linux_host\<lparr>environ := [''LD_LIBRARY_PATH'' \<mapsto> undecodable_root @ ''/bin/glnxa64''],
                fs := map_of (engine_dirs @
                  [(''/opt'', Directory), (undecodable_root, Directory),
                   (undecodable_root @ ''/bin'', Directory),
                   (undecodable_root @ ''/bin/glnxa64'', Directory),
                   (undecodable_root @ ''/bin/glnxa64/MATLAB'', RegularFile),
                   (undecodable_root @ ''/VersionInfo.xml'', RegularFile)]),
                xml_parse := (\<lambda>p. if p = undecodable_root @ ''/VersionInfo.xml''
                                  then Document [(''release'', Some ''R2022a'')]
                                  else Malformed)\<rparr>"

text \<open>A machine in the root directory, which holds no output directory.\<close>

definition elsewhere :: "host \<Rightarrow> host" where
  "elsewhere h = h\<lparr>getcwd := ''/''\<rparr>"

text \<open>The machine with the default install path under Python 3.11.\<close>

definition python311_host :: host where
  "python311_host = default_host\<lparr>version_minor := 11\<rparr>"

text \<open>A Windows machine with two MATLAB subkeys in the registry.\<close>

definition windows_root :: string where
  "windows_root = ''C:'' @ [nt_sep] @ ''MATLAB''"

definition windows_cwd :: string where
  "windows_cwd = ''C:'' @ [nt_sep] @ ''engine''"

definition windows_fs :: "string \<rightharpoonup> node" where
  "windows_fs = map_of
     [(''C:'' @ [nt_sep], Directory), (windows_root, Directory), (windows_cwd, Directory),
      (ntpath_join windows_cwd [''src''], Directory),
      (ntpath_join windows_cwd [''src'', ''matlab''], Directory),
      (ntpath_join windows_cwd [''src'', ''matlab'', ''engine''], Directory)]"

definition windows_host :: host where
  "windows_host =
     \<lparr>platform_system = ''Windows'', mac_ver_machine = [],
      version_major = 3, version_minor = 8, str_supported = ''{'3.8', '3.9'}'',
      environ = Map.empty, fs = windows_fs, xml_parse = (\<lambda>p. Malformed),
      reg_matlab_key = Inr [''9.11.0'', ''9.12.3''],
      reg_matlabroot = (\<lambda>k. if k = ''9.12.3'' then Inr windows_root else Inl ''not found''),
      getcwd = windows_cwd, can_encode = ascii, open_denied = (\<lambda>p. False)\<rparr>"

definition windows_finder :: finder where
  "windows_finder =
     \<lparr>arch = ''win64'', path_name = ''PATH'', python_ver = ''3.8'',
      platform = ''Windows'', found_matlab = Some []\<rparr>"

section \<open>Properties\<close>

subsection \<open>The registry loop\<close>

lemma enum_loop_no_match:
  "\<forall>k \<in> set key. \<not> startswith k MATLAB_VER \<Longrightarrow>
   enum_loop key (kv, fv) = (kv, fv @ key)"
  by (induction key arbitrary: fv) (simp_all add: Let_def)

lemma enum_loop_first_match:
  "\<forall>k \<in> set pre. \<not> startswith k MATLAB_VER \<Longrightarrow> startswith k MATLAB_VER \<Longrightarrow>
   enum_loop (pre @ k # rest) (kv, fv) = (k, fv @ pre @ [k])"
  by (induction pre arbitrary: fv) (simp_all add: Let_def)

lemma startswith_nonempty: "startswith k MATLAB_VER \<Longrightarrow> k \<noteq> []"
  by (auto simp: startswith_def MATLAB_VER_def)

subsection \<open>The search-path scan\<close>

text \<open>
  \<open>verify_matlab_release\<close> and \<open>_get_matlab_root_from_unix_bin\<close> by cases on
  the file system, then the two loops: an entry that matches both endings is
  handed over twice, with the same outcome.
\<close>

lemma release_loop_find:
  "release_loop children (mr, s) =
     (case find (\<lambda>child. fst child = ''release'') children of
        None \<Rightarrow> (mr, s)
      | Some child \<Rightarrow> (snd child, s\<lparr>found_matlab := snd child\<rparr>))"
  by (induction children) simp_all

lemma verify_matlab_release_cases:
  "verify_matlab_release h s root =
     (if malformed h root then Inl (ParseError (posixpath_join root [''VersionInfo.xml'']))
      else
        (case release_read h root of
           None \<Rightarrow> Inr (False, s)
         | Some t \<Rightarrow> Inr (t = Some MATLAB_REL, s\<lparr>found_matlab := t\<rparr>)))"
  by (auto simp: verify_matlab_release_def malformed_def release_read_def release_loop_find
      MATLAB_REL_def Let_def split: xml_doc.splits option.splits)

lemma get_matlab_root_cases:
  "get_matlab_root_from_unix_bin h s dir =
     (if isfile h (posixpath_join dir [''MATLAB'']) then
        (if malformed h (possible_root_of dir)
         then Inl (ParseError (posixpath_join (possible_root_of dir) [''VersionInfo.xml'']))
         else
           (case release_read h (possible_root_of dir) of
              None \<Rightarrow> Inr ([], s)
            | Some t \<Rightarrow>
                Inr (if t = Some MATLAB_REL then possible_root_of dir else [],
                     s\<lparr>found_matlab := t\<rparr>)))
      else Inr ([], s))"
  by (simp add: get_matlab_root_from_unix_bin_def verify_matlab_release_cases
      possible_root_of_def Let_def split: option.splits)

lemma get_matlab_root_again:
  "get_matlab_root_from_unix_bin h s dir = Inr ([], s') \<Longrightarrow>
   get_matlab_root_from_unix_bin h s' dir = Inr ([], s')"
  by (auto simp: get_matlab_root_cases split: if_splits option.splits)

lemma scan_endings_found: "fst ms \<noteq> [] \<Longrightarrow> scan_endings h path endings ms = Inr ms"
  by (cases endings) simp_all

lemma scan_endings_cases:
  "scan_endings h path endings ([], s) =
     (if matches endings path then get_matlab_root_from_unix_bin h s path else Inr ([], s))"
proof (induction endings arbitrary: s)
  case Nil
  then show ?case by (simp add: matches_def)
next
  case (Cons ending endings)
  show ?case
  proof (cases "endswith path ending")
    case False
    then show ?thesis using Cons.IH [of s] by (simp add: matches_def)
  next
    case True
    show ?thesis
    proof (cases "get_matlab_root_from_unix_bin h s path")
      case (Inl e)
      then show ?thesis using True by (simp add: matches_def)
    next
      case (Inr ms')
      show ?thesis
      proof (cases "fst ms' = []")
        case False
        then show ?thesis using True Inr by (simp add: matches_def scan_endings_found)
      next
        case e: True
        then obtain s' where ms': "ms' = ([], s')" by (cases ms') auto
        have "get_matlab_root_from_unix_bin h s' path = Inr ([], s')"
          using Inr ms' by (simp add: get_matlab_root_again)
        then show ?thesis using True Inr ms' Cons.IH [of s'] by (simp add: matches_def)
      qed
    qed
  qed
qed

lemma normpath_nonempty: "posixpath_normpath p \<noteq> []"
  by (simp add: posixpath_normpath_def Let_def)

lemma possible_root_nonempty: "possible_root_of dir \<noteq> []"
  by (simp add: possible_root_of_def normpath_nonempty)

lemma scan_endings_rejected:
  assumes "\<not> raises endings h path" and "\<not> passes endings h path"
  shows "scan_endings h path endings ([], s) =
           Inr ([], s\<lparr>found_matlab :=
                      (case recorded endings h path of Some t \<Rightarrow> t | None \<Rightarrow> found_matlab s)\<rparr>)"
  using assms
  by (auto simp: scan_endings_cases get_matlab_root_cases raises_def passes_def recorded_def
      examined_def split: option.splits)

lemma scan_endings_passes:
  assumes "passes endings h path"
  shows "scan_endings h path endings ([], s) =
           Inr (possible_root_of path, s\<lparr>found_matlab := Some MATLAB_REL\<rparr>)"
  using assms
  by (auto simp: scan_endings_cases get_matlab_root_cases passes_def examined_def
      malformed_def release_read_def split: option.splits xml_doc.splits if_splits)

lemma scan_endings_raises:
  assumes "raises endings h path"
  shows "scan_endings h path endings ([], s) =
           Inl (ParseError (posixpath_join (possible_root_of path) [''VersionInfo.xml'']))"
  using assms
  by (auto simp: scan_endings_cases get_matlab_root_cases raises_def examined_def)

lemma scan_dirs_found: "fst ms \<noteq> [] \<Longrightarrow> scan_dirs h endings paths ms = Inr ms"
  by (cases paths) simp_all

lemma scan_dirs_rejected:
  assumes "\<forall>p \<in> set paths. \<not> raises endings h p \<and> \<not> passes endings h p"
  shows "scan_dirs h endings paths ([], s) =
           Inr ([], s\<lparr>found_matlab := most_recent_release endings h paths (found_matlab s)\<rparr>)"
  using assms
proof (induction paths arbitrary: s)
  case Nil
  then show ?case by (simp add: most_recent_release_def)
next
  case (Cons p paths)
  then show ?case
    by (simp add: scan_endings_rejected most_recent_release_def)
qed

lemma scan_dirs_append:
  "scan_dirs h endings (xs @ ys) ms =
     (case scan_dirs h endings xs ms of
        Inl e \<Rightarrow> Inl e
      | Inr ms' \<Rightarrow> scan_dirs h endings ys ms')"
  by (induction xs arbitrary: ms) (auto simp: scan_dirs_found split: sum.splits)

lemma scan_dirs_first_pass:
  assumes "\<forall>p \<in> set pre. \<not> raises endings h p \<and> \<not> passes endings h p"
    and "passes endings h c"
  shows "scan_dirs h endings (pre @ c # rest) ([], s) =
           Inr (possible_root_of c, s\<lparr>found_matlab := Some MATLAB_REL\<rparr>)"
  using assms
  by (simp add: scan_dirs_append scan_dirs_rejected scan_endings_passes scan_dirs_found
      possible_root_nonempty)

lemma scan_dirs_no_winner:
  "scan_dirs h endings paths ([], s) = Inr ([], s') \<Longrightarrow>
   s' = s\<lparr>found_matlab := most_recent_release endings h paths (found_matlab s)\<rparr>
   \<and> (\<forall>p \<in> set paths. \<not> raises endings h p \<and> \<not> passes endings h p)"
proof (induction paths arbitrary: s)
  case Nil
  then show ?case by (simp add: most_recent_release_def)
next
  case (Cons p paths)
  show ?case
  proof (cases "raises endings h p")
    case True
    then show ?thesis using Cons.prems by (simp add: scan_endings_raises)
  next
    case nr: False
    show ?thesis
    proof (cases "passes endings h p")
      case True
      then show ?thesis using Cons.prems
        by (simp add: scan_endings_passes scan_dirs_found possible_root_nonempty)
    next
      case False
      let ?s1 = "s\<lparr>found_matlab :=
                    (case recorded endings h p of Some t \<Rightarrow> t | None \<Rightarrow> found_matlab s)\<rparr>"
      have "scan_dirs h endings paths ([], ?s1) = Inr ([], s')"
        using False nr Cons.prems by (simp add: scan_endings_rejected)
      from Cons.IH [OF this] show ?thesis
        using False nr by (simp add: most_recent_release_def)
    qed
  qed
qed


text \<open>
  An examined entry whose \<open>VersionInfo.xml\<close> does not parse, met before any
  passing entry, ends the scan with the parse error.
\<close>

lemma scan_dirs_first_raise:
  assumes "\<forall>p \<in> set pre. \<not> raises endings h p \<and> \<not> passes endings h p"
    and "raises endings h c"
  shows "scan_dirs h endings (pre @ c # rest) ([], s) =
           Inl (ParseError (posixpath_join (possible_root_of c) [''VersionInfo.xml'']))"
  using assms
  by (simp add: scan_dirs_append scan_dirs_rejected scan_endings_raises)

lemma search_aborts_at_malformed:
  assumes "environ h (path_name s) = Some v"
    and "split_sep posix_pathsep v = pre @ c # rest"
    and "\<forall>p \<in> set pre. \<not> raises (endings_of s) h p \<and> \<not> passes (endings_of s) h p"
    and "raises (endings_of s) h c"
  shows "search_path_for_directory_unix h s =
           Inl (ParseError (posixpath_join (possible_root_of c) [''VersionInfo.xml'']))"
proof -
  have "create_path_list h s = Inr (pre @ c # rest)"
    using assms(1,2) by (simp add: create_path_list_def)
  then show ?thesis
    using scan_dirs_first_raise [OF assms(3,4)]
    by (simp add: search_path_for_directory_unix_def)
qed

text \<open>
  The two endings for an architecture tag, and the error that ends a scan
  without a winner.
\<close>

lemma endings_of_tag:
  "arch s \<in> ARCH_TAGS \<Longrightarrow> endings_of s = [''bin/'' @ arch s, ''bin/'' @ arch s @ ''/'']"
  by (auto simp: endings_of_def ARCH_TAGS_def posixpath_join_def posix_join_step_def
      startswith_def endswith_def posix_sep_def Let_def)

lemma search_no_winner:
  assumes "create_path_list h s = Inr paths"
    and "scan_dirs h (endings_of s) paths ([], s) = Inr ([], s')"
  shows "search_path_for_directory_unix h s =
           (case found_matlab s' of
              None \<Rightarrow> Inl (set_path (path_name s) (arch s))
            | Some fm \<Rightarrow>
                if fm = [] then Inl (set_path (path_name s) (arch s))
                else
                  (case VER_TO_REL fm of
                     Some rel \<Rightarrow> Inl (incompatible_ver rel fm)
                   | None \<Rightarrow> Inl minimum_required))"
proof -
  have "s' = s\<lparr>found_matlab := most_recent_release (endings_of s) h paths (found_matlab s)\<rparr>"
    using scan_dirs_no_winner [OF assms(2)] by simp
  then have "path_name s' = path_name s" "arch s' = arch s" by simp_all
  then show ?thesis
    using assms by (simp add: search_path_for_directory_unix_def split: option.splits)
qed

text \<open>
  No release name of \<open>VER_TO_REL\<close> is one of its keys. So a scan without a
  winner whose last release text is a release name of the table ends in
  \<open>minimum_required\<close>.
\<close>

lemma release_names_not_keys: "VER_TO_REL v = Some d \<Longrightarrow> VER_TO_REL d = None \<and> d \<noteq> []"
  by (auto simp: VER_TO_REL_def split: if_splits)

lemma known_release_gets_minimum_required:
  assumes "create_path_list h s = Inr paths"
    and "scan_dirs h (endings_of s) paths ([], s) = Inr ([], s')"
    and "found_matlab s' = Some d" and "VER_TO_REL v = Some d"
  shows "search_path_for_directory_unix h s = Inl minimum_required"
  using search_no_winner [OF assms(1,2)] assms(3) release_names_not_keys [OF assms(4)]
  by simp

text \<open>The empty entry of a search path matches no ending.\<close>

lemma empty_no_match: "\<not> matches (endings_of s) []"
  by (auto simp: matches_def endings_of_def posixpath_join_def posix_join_step_def endswith_def
      startswith_def posix_sep_def Let_def)

subsection \<open>Joining a root with plain components\<close>

text \<open>
  \<open>os.path.join\<close> puts one separator between a root and the components of
  the output paths when the root does not end with a separator; on Windows
  the root must also have a path after its drive.
\<close>

lemma endswith_single: "endswith s [c] = (s \<noteq> [] \<and> last s = c)"
  by (cases s rule: rev_cases) (auto simp: endswith_def)

lemma startswith_single: "startswith b [c] = (b \<noteq> [] \<and> hd b = c)"
  by (cases b) (auto simp: startswith_def)

lemma posix_join_step_plain:
  "path \<noteq> [] \<Longrightarrow> last path \<noteq> CHR ''/'' \<Longrightarrow> b \<noteq> [] \<Longrightarrow> hd b \<noteq> CHR ''/'' \<Longrightarrow>
   posix_join_step path b = path @ ''/'' @ b"
  by (simp add: posix_join_step_def posix_sep_def endswith_single startswith_single)

lemma posix_lines:
  assumes "ar \<in> ARCH_TAGS" and "root \<noteq> []" and "last root \<noteq> CHR ''/''"
  shows "posixpath_join root [''bin'', ar] = root @ ''/bin/'' @ ar"
    and "posixpath_join root [''extern'', ''engines'', ''python'', ''dist'', ''matlab'', ''engine'', ar]
           = root @ ''/extern/engines/python/dist/matlab/engine/'' @ ar"
    and "posixpath_join root [''extern'', ''bin'', ar] = root @ ''/extern/bin/'' @ ar"
  using assms by (auto simp: ARCH_TAGS_def posixpath_join_def posix_join_step_plain)

lemma find_from_index:
  "find_from xs c k = Some i \<Longrightarrow> i < length xs \<and> xs ! i = c"
proof (induction xs arbitrary: k i)
  case Nil
  then show ?case by simp
next
  case (Cons x xs)
  then show ?case
    by (cases k) (auto split: if_splits)
qed

lemma splitdrive_append: "fst (ntpath_splitdrive p) @ snd (ntpath_splitdrive p) = p"
  by (simp add: ntpath_splitdrive_def Let_def split: option.splits)

lemma splitdrive_shape:
  assumes "snd (ntpath_splitdrive p) \<noteq> []"
  shows "fst (ntpath_splitdrive p) = [] \<or> last (fst (ntpath_splitdrive p)) = CHR '':''
         \<or> hd (snd (ntpath_splitdrive p)) \<in> nt_seps"
proof -
  let ?normp = "map (\<lambda>c. if c = CHR ''/'' then nt_sep else c) p"
  have sep: "hd (drop i p) \<in> nt_seps" if "find_from ?normp nt_sep k = Some i" for i k
  proof -
    from find_from_index [OF that] have i: "i < length p" and "?normp ! i = nt_sep" by simp_all
    then have "p ! i \<in> nt_seps" by (auto simp: nt_seps_def nt_sep_def split: if_splits)
    then show ?thesis using i by (simp add: hd_drop_conv_nth)
  qed
  have colon: "last (take 2 p) = CHR '':''" if "take 1 (drop 1 ?normp) = '':''" "2 \<le> length p"
  proof -
    from that obtain a b r where p: "p = a # b # r" by (cases p; cases "tl p") auto
    with that show ?thesis by (auto simp: nt_sep_def split: if_splits)
  qed
  show ?thesis
    using assms sep colon
    by (auto simp: ntpath_splitdrive_def Let_def split: option.splits if_splits)
qed

lemma nt_join_step_plain:
  assumes "ntpath_splitdrive b = ([], b)" and "b \<noteq> []" and "hd b \<notin> nt_seps"
    and "rp \<noteq> []" and "last rp \<notin> nt_seps"
  shows "nt_join_step (rd, rp) b = (rd, rp @ [nt_sep] @ b)"
  using assms by (simp add: nt_join_step_def Let_def)

lemma splitdrive_plain:
  "ntpath_splitdrive ''bin'' = ([], ''bin'')"
  "ntpath_splitdrive ''extern'' = ([], ''extern'')"
  "ntpath_splitdrive ''engines'' = ([], ''engines'')"
  "ntpath_splitdrive ''python'' = ([], ''python'')"
  "ntpath_splitdrive ''dist'' = ([], ''dist'')"
  "ntpath_splitdrive ''matlab'' = ([], ''matlab'')"
  "ntpath_splitdrive ''engine'' = ([], ''engine'')"
  "ntpath_splitdrive ''win64'' = ([], ''win64'')"
  "ntpath_splitdrive ''glnxa64'' = ([], ''glnxa64'')"
  "ntpath_splitdrive ''maci64'' = ([], ''maci64'')"
  "ntpath_splitdrive ''maca64'' = ([], ''maca64'')"
  by (simp_all add: ntpath_splitdrive_def nt_sep_def)

lemma nt_join_finish:
  assumes "ntpath_splitdrive root = (d, p)" and "p \<noteq> []"
  shows "(if p @ t \<noteq> [] \<and> hd (p @ t) \<notin> nt_seps \<and> d \<noteq> [] \<and> last d \<noteq> CHR '':''
          then d @ [nt_sep] @ p @ t else d @ p @ t) = root @ t"
proof -
  have "d = [] \<or> last d = CHR '':'' \<or> hd p \<in> nt_seps"
    using splitdrive_shape [of root] assms by simp
  moreover have "hd (p @ t) = hd p" using assms(2) by simp
  moreover have "d @ p = root" using splitdrive_append [of root] assms(1) by simp
  ultimately show ?thesis by auto
qed

lemma nt_join_plain:
  assumes "ntpath_splitdrive root = (d, p)" and "p \<noteq> []"
    and "foldl nt_join_step (d, p) comps = (d, p @ t)"
  shows "ntpath_join root comps = root @ t"
  unfolding ntpath_join_def assms(1) assms(3) Let_def fst_conv snd_conv
  by (rule nt_join_finish [OF assms(1,2)])

lemma nt_lines:
  assumes "ar \<in> ARCH_TAGS" and "snd (ntpath_splitdrive root) \<noteq> []" and "last root \<notin> nt_seps"
  shows "ntpath_join root [''bin'', ar] = root @ [nt_sep] @ ''bin'' @ [nt_sep] @ ar"
    and "ntpath_join root [''extern'', ''engines'', ''python'', ''dist'', ''matlab'', ''engine'', ar]
           = root @ [nt_sep] @ ''extern'' @ [nt_sep] @ ''engines'' @ [nt_sep] @ ''python''
               @ [nt_sep] @ ''dist'' @ [nt_sep] @ ''matlab'' @ [nt_sep] @ ''engine'' @ [nt_sep] @ ar"
    and "ntpath_join root [''extern'', ''bin'', ar]
           = root @ [nt_sep] @ ''extern'' @ [nt_sep] @ ''bin'' @ [nt_sep] @ ar"
proof -
  obtain d p where dp: "ntpath_splitdrive root = (d, p)" by (cases "ntpath_splitdrive root")
  have p: "p \<noteq> []" using assms(2) dp by simp
  have "last root = last p" using splitdrive_append [of root] dp p by (metis fst_conv last_appendR snd_conv)
  then have lp: "last p \<notin> nt_seps" using assms(3) by simp
  have tag: "ntpath_splitdrive ar = ([], ar)" "ar \<noteq> []" "hd ar \<notin> nt_seps"
    using assms(1) by (auto simp: ARCH_TAGS_def splitdrive_plain nt_seps_def)
  note step = nt_join_step_plain splitdrive_plain nt_seps_def nt_sep_def
  show "ntpath_join root [''bin'', ar] = root @ [nt_sep] @ ''bin'' @ [nt_sep] @ ar"
    using p lp tag by (intro nt_join_plain [OF dp p]) (simp add: step)
  show "ntpath_join root [''extern'', ''engines'', ''python'', ''dist'', ''matlab'', ''engine'', ar]
           = root @ [nt_sep] @ ''extern'' @ [nt_sep] @ ''engines'' @ [nt_sep] @ ''python''
               @ [nt_sep] @ ''dist'' @ [nt_sep] @ ''matlab'' @ [nt_sep] @ ''engine'' @ [nt_sep] @ ar"
    using p lp tag by (intro nt_join_plain [OF dp p]) (simp add: step)
  show "ntpath_join root [''extern'', ''bin'', ar]
           = root @ [nt_sep] @ ''extern'' @ [nt_sep] @ ''bin'' @ [nt_sep] @ ar"
    using p lp tag by (intro nt_join_plain [OF dp p]) (simp add: step)
qed

subsection \<open>The top-level procedure\<close>

text \<open>
  The writes: a text that can be encoded is appended, and four texts that
  can be encoded leave their concatenation. Then \<open>run\<close> by cases.
\<close>

lemma write_texts_step:
  "st f = Some c \<Longrightarrow> list_all (can_encode h) t \<Longrightarrow>
   write_texts h f (t # ts) st = write_texts h f ts (st(f \<mapsto> c @ t))"
  by simp

lemma write_texts_stop:
  "\<not> list_all (can_encode h) t \<Longrightarrow>
   write_texts h f (t # ts) st = (Inl (UnicodeEncodeError t), st)"
  by simp

lemma write_texts_ok:
  "st f = Some c \<Longrightarrow> list_all (can_encode h) (concat ts) \<Longrightarrow>
   write_texts h f ts st = (Inr (), st(f \<mapsto> c @ concat ts))"
proof (induction ts arbitrary: st c)
  case Nil
  have "st(f \<mapsto> c) = st" using Nil.prems(1) by (rule map_upd_triv)
  then show ?case by simp
next
  case (Cons t ts)
  have t: "list_all (can_encode h) t" and ts: "list_all (can_encode h) (concat ts)"
    using Cons.prems(2) by simp_all
  have f: "(st(f \<mapsto> c @ t)) f = Some (c @ t)" by simp
  have "write_texts h f (t # ts) st = write_texts h f ts (st(f \<mapsto> c @ t))"
    using Cons.prems(1) t by (rule write_texts_step)
  also have "\<dots> = (Inr (), (st(f \<mapsto> c @ t))(f \<mapsto> (c @ t) @ concat ts))"
    using f ts by (rule Cons.IH)
  also have "(st(f \<mapsto> c @ t))(f \<mapsto> (c @ t) @ concat ts) = st(f \<mapsto> c @ concat (t # ts))"
    by (simp only: fun_upd_upd append_assoc concat.simps)
  finally show ?case .
qed



lemma split_sep_plain: "c \<notin> set a \<Longrightarrow> split_sep c a = [a]"
  by (induction a) auto

lemma split_sep_append: "c \<notin> set a \<Longrightarrow> split_sep c (a @ c # b) = a # split_sep c b"
  by (induction a) auto

lemma write_text_file_lines:
  assumes "arch s \<in> ARCH_TAGS"
    and "if platform_system h = ''Windows''
         then snd (ntpath_splitdrive matlab_root) \<noteq> [] \<and> last matlab_root \<notin> nt_seps
         else matlab_root \<noteq> [] \<and> last matlab_root \<noteq> CHR ''/''"
    and "\<not> open_w_fails h"
    and "list_all (can_encode h) (four_lines (os_sep h) matlab_root (arch s))"
  shows "write_text_file h s matlab_root st =
           (Inr (), st(file_location h \<mapsto> four_lines (os_sep h) matlab_root (arch s)))"
proof -
  let ?f = "file_location h"
  let ?sep = "os_sep h"
  let ?ts = "[arch s @ newline,
              (matlab_root @ ?sep @ ''bin'' @ ?sep @ arch s) @ newline,
              (matlab_root @ ?sep @ ''extern'' @ ?sep @ ''engines'' @ ?sep @ ''python'' @ ?sep
                 @ ''dist'' @ ?sep @ ''matlab'' @ ?sep @ ''engine'' @ ?sep @ arch s) @ newline,
              matlab_root @ ?sep @ ''extern'' @ ?sep @ ''bin'' @ ?sep @ arch s]"
  have c: "concat ?ts = four_lines ?sep matlab_root (arch s)"
    by (simp add: four_lines_def)
  have "write_text_file h s matlab_root st = write_texts h ?f ?ts (st(?f \<mapsto> []))"
  proof (cases "platform_system h = ''Windows''")
    case True
    then show ?thesis
      using assms(1,2,3)
      by (simp add: write_text_file_def os_path_join_def os_sep_def nt_lines)
  next
    case False
    then show ?thesis
      using assms(1,2,3)
      by (simp add: write_text_file_def os_path_join_def os_sep_def posix_lines posix_sep_def)
  qed
  also have "\<dots> = (Inr (), (st(?f \<mapsto> []))(?f \<mapsto> [] @ concat ?ts))"
  proof (rule write_texts_ok)
    show "(st(?f \<mapsto> [])) ?f = Some []" by simp
    show "list_all (can_encode h) (concat ?ts)" using assms(4) by (simp only: c)
  qed
  also have "(st(?f \<mapsto> []))(?f \<mapsto> [] @ concat ?ts) = st(?f \<mapsto> four_lines ?sep matlab_root (arch s))"
    by (simp only: c fun_upd_upd append_Nil)
  finally show ?thesis .
qed

lemma four_lines_split:
  assumes "ar \<in> ARCH_TAGS" and "CHR 0x0A \<notin> set root" and "CHR 0x0A \<notin> set sep"
  shows "split_sep (CHR 0x0A) (four_lines sep root ar) =
           [ar,
            root @ sep @ ''bin'' @ sep @ ar,
            root @ sep @ ''extern'' @ sep @ ''engines'' @ sep @ ''python'' @ sep @ ''dist'' @ sep
              @ ''matlab'' @ sep @ ''engine'' @ sep @ ar,
            root @ sep @ ''extern'' @ sep @ ''bin'' @ sep @ ar]"
proof -
  have ar: "CHR 0x0A \<notin> set ar" using assms(1) by (auto simp: ARCH_TAGS_def)
  let ?l2 = "root @ sep @ ''bin'' @ sep @ ar"
  let ?l3 = "root @ sep @ ''extern'' @ sep @ ''engines'' @ sep @ ''python'' @ sep @ ''dist'' @ sep
              @ ''matlab'' @ sep @ ''engine'' @ sep @ ar"
  let ?l4 = "root @ sep @ ''extern'' @ sep @ ''bin'' @ sep @ ar"
  have n: "CHR 0x0A \<notin> set ?l2" "CHR 0x0A \<notin> set ?l3" "CHR 0x0A \<notin> set ?l4"
    using ar assms(2,3) by auto
  have "four_lines sep root ar = ar @ CHR 0x0A # ?l2 @ CHR 0x0A # ?l3 @ CHR 0x0A # ?l4"
    by (simp add: four_lines_def newline_def)
  then have "split_sep (CHR 0x0A) (four_lines sep root ar)
      = split_sep (CHR 0x0A) (ar @ CHR 0x0A # ?l2 @ CHR 0x0A # ?l3 @ CHR 0x0A # ?l4)"
    by (rule arg_cong)
  also have "\<dots> = ar # split_sep (CHR 0x0A) (?l2 @ CHR 0x0A # ?l3 @ CHR 0x0A # ?l4)"
    by (rule split_sep_append [OF ar])
  also have "split_sep (CHR 0x0A) (?l2 @ CHR 0x0A # ?l3 @ CHR 0x0A # ?l4)
      = ?l2 # split_sep (CHR 0x0A) (?l3 @ CHR 0x0A # ?l4)"
    by (rule split_sep_append [OF n(1)])
  also have "split_sep (CHR 0x0A) (?l3 @ CHR 0x0A # ?l4) = ?l3 # split_sep (CHR 0x0A) ?l4"
    by (rule split_sep_append [OF n(2)])
  also have "split_sep (CHR 0x0A) ?l4 = [?l4]"
    by (rule split_sep_plain [OF n(3)])
  finally show ?thesis .
qed

lemma run_cases:
  "run h st =
     (case set_platform_and_arch h init_finder of
        Inl e \<Rightarrow> (Inl e, st)
      | Inr s1 \<Rightarrow>
          (case set_python_version h s1 of
             Inl e \<Rightarrow> (Inl e, st)
           | Inr s2 \<Rightarrow>
               if platform s2 = ''Windows'' then
                 (case get_matlab_root_from_windows_reg h of
                    Inl e \<Rightarrow> (Inl e, st)
                  | Inr matlab_root \<Rightarrow> write_text_file h s2 matlab_root st)
               else
                 (case DEFAULT_INSTALLS (platform s2) of
                    None \<Rightarrow> (Inl (KeyError (platform s2)), st)
                  | Some d \<Rightarrow>
                      if path_exists h d then write_text_file h s2 d st
                      else
                        (case search_path_for_directory_unix h s2 of
                           Inl e \<Rightarrow> (Inl e, st)
                         | Inr r \<Rightarrow> write_text_file h (snd r) (fst r) st))))"
  by (simp add: run_def unix_default_install_exists_def split: sum.splits option.splits)



lemma str_of_digit:
  "str_of_nat 3 = ''3''" "str_of_nat 8 = ''8''" "str_of_nat 9 = ''9''"
  by code_simp+

lemma python_ver_supported:
  assumes "version_major h = 3" and "version_minor h = 8 \<or> version_minor h = 9"
  shows "set_python_version h s =
           Inr (s\<lparr>python_ver := ''3.'' @ (if version_minor h = 8 then ''8'' else ''9'')\<rparr>)"
  using assms
  by (auto simp: set_python_version_def SUPPORTED_PYTHON_VERSIONS_def str_of_digit Let_def)

lemma setup_linux:
  assumes "platform_system h = ''Linux''"
  shows "set_platform_and_arch h init_finder =
           Inr (init_finder\<lparr>platform := ''Linux'', path_name := ''LD_LIBRARY_PATH'',
                            arch := ''glnxa64''\<rparr>)"
  using assms by (simp add: set_platform_and_arch_def PLATFORM_DICT_def Let_def)

lemma setup_darwin:
  assumes "platform_system h = ''Darwin''"
  shows "set_platform_and_arch h init_finder =
           Inr (init_finder\<lparr>platform := ''Darwin'', path_name := ''DYLD_LIBRARY_PATH'',
                            arch := (if mac_ver_machine h = ''arm64'' then ''maca64''
                                     else ''maci64'')\<rparr>)"
  using assms by (simp add: set_platform_and_arch_def PLATFORM_DICT_def Let_def)

section \<open>The claims\<close>

subsection \<open>Registry lookup\<close>

text \<open>
  C4. Whatever subkeys the MATLAB key enumerates,
  \<open>_find_matlab_key_from_windows_registry\<close> returns the first of them, in
  enumeration order, that starts with the expected version \<open>9.12\<close>; subkeys
  after it play no part. The registry lookup then returns the \<open>MATLABROOT\<close>
  value stored under that subkey, or fails with \<open>no_windows_install\<close> when the
  value cannot be read.
\<close>

theorem registry_first_prefix_match:
  assumes "\<forall>x \<in> set pre. \<not> startswith x MATLAB_VER" and "startswith k MATLAB_VER"
  shows "find_matlab_key_from_windows_registry (pre @ k # rest) = Inr k
       \<and> (reg_matlab_key h = Inr (pre @ k # rest) \<longrightarrow>
            get_matlab_root_from_windows_reg h =
              (case reg_matlabroot h k of
                 Inl err \<Rightarrow> Inl (no_windows_install err)
               | Inr matlab_root \<Rightarrow> Inr matlab_root))"
proof -
  have key: "find_matlab_key_from_windows_registry (pre @ k # rest) = Inr k"
    using assms startswith_nonempty [OF assms(2)]
    by (simp add: find_matlab_key_from_windows_registry_def enum_loop_first_match)
  then show ?thesis
    by (simp add: get_matlab_root_from_windows_reg_def get_root_from_version_key_def)
qed

text \<open>
  The subkeys \<open>9.11.0\<close> and \<open>9.12.3\<close>: the patch-suffixed \<open>9.12.3\<close> is selected
  and its root returned.
\<close>

theorem registry_first_prefix_match_witness:
  "\<not> startswith ''9.11.0'' MATLAB_VER \<and> startswith ''9.12.3'' MATLAB_VER
   \<and> find_matlab_key_from_windows_registry [''9.11.0'', ''9.12.3''] = Inr ''9.12.3''
   \<and> get_matlab_root_from_windows_reg windows_host = Inr windows_root"
  using registry_first_prefix_match [of "[''9.11.0'']" "''9.12.3''" "[]" windows_host]
  by (simp add: startswith_def MATLAB_VER_def windows_host_def)

text \<open>
  C5, as amended. When no subkey starts with the expected version, a
  non-empty key gives \<open>no_compatible_matlab\<close> with all the subkeys found and an
  install hint naming the last subkey enumerated; a key without subkeys gives
  \<open>no_matlab\<close>.
\<close>

theorem registry_no_match:
  assumes "\<forall>x \<in> set key. \<not> startswith x MATLAB_VER"
  shows "find_matlab_key_from_windows_registry key =
           (if key = [] then Inl no_matlab else Inl (no_compatible_matlab key (last key)))"
  using assms
  by (simp add: find_matlab_key_from_windows_registry_def enum_loop_no_match)


theorem registry_no_match_witness:
  "\<not> startswith ''9.10.0'' MATLAB_VER
   \<and> find_matlab_key_from_windows_registry [''9.10.0''] =
       Inl (no_compatible_matlab [''9.10.0''] ''9.10.0'')
   \<and> find_matlab_key_from_windows_registry [] = Inl no_matlab
   \<and> message (no_compatible_matlab [''9.10.0''] ''9.10.0'') =
       ''No compatible MATLAB installation found in Windows Registry. This release of MATLAB Engine API for Python is compatible with version 9.12. The found versions were 9.10.0. To install a compatible version, call python -m pip install matlabengine==9.10.0.''"
  using registry_no_match [of "[''9.10.0'']"] registry_no_match [of "[]"]
  by (simp add: startswith_def MATLAB_VER_def install_compatible_def)

text \<open>
  C5 as stated says the hint names the newest version found. For the subkeys
  \<open>9.11\<close>, \<open>9.6\<close>, which a registry enumerates in this order, the hint names
  \<open>9.6\<close>, and \<open>9.11\<close> is the newer one (R2021b against R2019a in \<open>VER_TO_REL\<close>).
\<close>

theorem registry_hint_not_newest:
  "find_matlab_key_from_windows_registry [''9.11'', ''9.6''] =
     Inl (no_compatible_matlab [''9.11'', ''9.6''] ''9.6'')
   \<and> newest_version [''9.11'', ''9.6''] = ''9.11''
   \<and> find_matlab_key_from_windows_registry [''9.11'', ''9.6''] \<noteq>
       Inl (no_compatible_matlab [''9.11'', ''9.6''] (newest_version [''9.11'', ''9.6'']))"
  by (simp add: find_matlab_key_from_windows_registry_def startswith_def MATLAB_VER_def
      newest_version_def version_numbers_def)

subsection \<open>Release verification\<close>

text \<open>
  C6. \<open>verify_matlab_release\<close> returns false when \<open>VersionInfo.xml\<close> is not a
  file under the root. When the file is there and does not parse, the parse
  error is raised. When it parses, the text of the first child named
  \<open>release\<close> is recorded in \<open>found_matlab\<close>, also when it does not match, and
  the result is true exactly when that text is the expected release. Without
  such a child nothing is recorded and the result is false.
\<close>

theorem verify_matlab_release_outcomes:
  fixes h s root
  defines "version_info \<equiv> posixpath_join root [''VersionInfo.xml'']"
  shows "(\<not> isfile h version_info \<longrightarrow> verify_matlab_release h s root = Inr (False, s))
   \<and> (isfile h version_info \<and> xml_parse h version_info = Malformed \<longrightarrow>
        verify_matlab_release h s root = Inl (ParseError version_info))
   \<and> (isfile h version_info \<and> xml_parse h version_info = Document children
        \<and> find (\<lambda>child. fst child = ''release'') children = Some (tag, text) \<longrightarrow>
        verify_matlab_release h s root =
          Inr (text = Some MATLAB_REL, s\<lparr>found_matlab := text\<rparr>))
   \<and> (isfile h version_info \<and> xml_parse h version_info = Document children
        \<and> find (\<lambda>child. fst child = ''release'') children = None \<longrightarrow>
        verify_matlab_release h s root = Inr (False, s))"
  by (simp add: version_info_def verify_matlab_release_cases malformed_def release_read_def)


text \<open>
  On the example machine: no file under \<open>/opt/w\<close>, a file that does not
  parse under \<open>/opt/z\<close>, release R2021b under \<open>/opt/x\<close>, the expected release
  under \<open>/opt/y\<close>.
\<close>

theorem verify_matlab_release_outcomes_witness:
  "verify_matlab_release linux_host linux_finder ''/opt/w'' = Inr (False, linux_finder)
   \<and> verify_matlab_release linux_host linux_finder ''/opt/z'' =
       Inl (ParseError ''/opt/z/VersionInfo.xml'')
   \<and> verify_matlab_release linux_host linux_finder ''/opt/x'' =
       Inr (False, linux_finder\<lparr>found_matlab := Some ''R2021b''\<rparr>)
   \<and> verify_matlab_release linux_host linux_finder ''/opt/y'' =
       Inr (True, linux_finder\<lparr>found_matlab := Some ''R2022a''\<rparr>)"
  using verify_matlab_release_outcomes [of linux_host "''/opt/w''" linux_finder]
    verify_matlab_release_outcomes [of linux_host "''/opt/z''" linux_finder]
    verify_matlab_release_outcomes [of linux_host "''/opt/x''" linux_finder
      "[(''version'', Some ''9.11.0.1769968''), (''release'', Some ''R2021b'')]"
      "''release''" "Some ''R2021b''"]
    verify_matlab_release_outcomes [of linux_host "''/opt/y''" linux_finder
      "[(''version'', Some ''9.12.0.1884302''), (''release'', Some ''R2022a'')]"
      "''release''" "Some ''R2022a''"]
  by (simp add: linux_host_def example_fs_def engine_dirs_def example_xml_def isfile_def posixpath_join_def
      posix_join_step_def startswith_def endswith_def posix_sep_def MATLAB_REL_def)

subsection \<open>The search-path variable\<close>

text \<open>
  C7, as amended. When the search-path variable is unset, \<open>_create_path_list\<close>
  fails with \<open>set_path\<close>, and so does \<open>search_path_for_directory_unix\<close>. When
  it is set to the empty string, \<open>_create_path_list\<close> returns the list with
  the one entry \<open>''\<close>; the scan of an instance that has recorded no release
  then ends in the same \<open>set_path\<close> error, whatever the file system holds.
\<close>

theorem create_path_list_unset_or_empty:
  "(environ h (path_name s) = None \<longrightarrow>
      create_path_list h s = Inl (set_path (path_name s) (arch s))
      \<and> search_path_for_directory_unix h s = Inl (set_path (path_name s) (arch s)))
   \<and> (environ h (path_name s) = Some [] \<longrightarrow>
      create_path_list h s = Inr [[]]
      \<and> (\<not> truthy (found_matlab s) \<longrightarrow>
           search_path_for_directory_unix h s = Inl (set_path (path_name s) (arch s))))"
  by (simp add: create_path_list_def search_path_for_directory_unix_def scan_endings_cases
      empty_no_match)


theorem create_path_list_unset_or_empty_witness:
  "create_path_list (linux_host\<lparr>environ := Map.empty\<rparr>) linux_finder =
     Inl (set_path ''LD_LIBRARY_PATH'' ''glnxa64'')
   \<and> search_path_for_directory_unix (linux_host\<lparr>environ := Map.empty\<rparr>) linux_finder =
     Inl (set_path ''LD_LIBRARY_PATH'' ''glnxa64'')
   \<and> create_path_list (with_path []) linux_finder = Inr [[]]
   \<and> search_path_for_directory_unix (with_path []) linux_finder =
     Inl (set_path ''LD_LIBRARY_PATH'' ''glnxa64'')"
  using create_path_list_unset_or_empty [of "linux_host\<lparr>environ := Map.empty\<rparr>" linux_finder]
    create_path_list_unset_or_empty [of "with_path []" linux_finder]
  by (simp add: with_path_def linux_finder_def)

text \<open>
  C7 as stated says \<open>_create_path_list\<close> fails for the empty string. It
  returns: splitting the empty string gives one empty entry, and the list is
  not empty.
\<close>

theorem create_path_list_empty_returns:
  "create_path_list (with_path []) linux_finder = Inr [[]]
   \<and> create_path_list (with_path []) linux_finder \<noteq> Inl (set_path ''LD_LIBRARY_PATH'' ''glnxa64'')"
  by (simp add: create_path_list_def with_path_def linux_finder_def posix_pathsep_def)


subsection \<open>The output file\<close>

text \<open>
  C3, as amended. For an architecture tag of the enumeration and a root that
  does not end with a path separator (on Windows: a root with a path after
  its drive, not ending with a backslash or a slash), when the output file
  can be opened for writing, its directory \<open>src/matlab/engine\<close> being there
  under the working directory, and its text can be encoded,
  \<open>write_text_file\<close> succeeds and leaves at the fixed location exactly four
  newline-separated lines, with nothing after the fourth: the tag, and the
  root followed by \<open>bin\<close> and the tag, by \<open>extern\<close>, \<open>engines\<close>, \<open>python\<close>, \<open>dist\<close>,
  \<open>matlab\<close>, \<open>engine\<close> and the tag, and by \<open>extern\<close>, \<open>bin\<close> and the tag, each
  joined by the separator of the platform: the slash on Linux and macOS, the
  backslash on Windows. For a root without a newline character, splitting
  the file at the newlines gives these four lines. What the file held before
  plays no part.
\<close>

theorem write_text_file_four_lines:
  assumes "arch s \<in> ARCH_TAGS"
    and "if platform_system h = ''Windows''
         then snd (ntpath_splitdrive matlab_root) \<noteq> [] \<and> last matlab_root \<notin> nt_seps
         else matlab_root \<noteq> [] \<and> last matlab_root \<noteq> CHR ''/''"
    and "\<not> open_w_fails h"
    and "list_all (can_encode h) (four_lines (os_sep h) matlab_root (arch s))"
  shows "write_text_file h s matlab_root st =
           (Inr (), st(file_location h \<mapsto> four_lines (os_sep h) matlab_root (arch s)))
       \<and> (CHR 0x0A \<notin> set matlab_root \<longrightarrow>
            split_sep (CHR 0x0A) (four_lines (os_sep h) matlab_root (arch s)) =
              [arch s,
               matlab_root @ os_sep h @ ''bin'' @ os_sep h @ arch s,
               matlab_root @ os_sep h @ ''extern'' @ os_sep h @ ''engines'' @ os_sep h
                 @ ''python'' @ os_sep h @ ''dist'' @ os_sep h @ ''matlab'' @ os_sep h
                 @ ''engine'' @ os_sep h @ arch s,
               matlab_root @ os_sep h @ ''extern'' @ os_sep h @ ''bin'' @ os_sep h @ arch s])"
proof -
  have sep: "CHR 0x0A \<notin> set (os_sep h)"
    by (simp add: os_sep_def nt_sep_def posix_sep_def)
  show ?thesis
    using write_text_file_lines [OF assms] four_lines_split [OF assms(1) _ sep] by blast
qed

text \<open>The root \<open>/usr/local/MATLAB/R2022a\<close> with the tag \<open>glnxa64\<close>.\<close>

theorem write_text_file_four_lines_witness:
  "\<not> open_w_fails linux_host
   \<and> write_text_file linux_host linux_finder ''/usr/local/MATLAB/R2022a'' Map.empty =
       (Inr (),
        [''/home/user/engine/src/matlab/engine/_arch.txt'' \<mapsto>
           ''glnxa64'' @ newline
           @ ''/usr/local/MATLAB/R2022a/bin/glnxa64'' @ newline
           @ ''/usr/local/MATLAB/R2022a/extern/engines/python/dist/matlab/engine/glnxa64'' @ newline
           @ ''/usr/local/MATLAB/R2022a/extern/bin/glnxa64''])
   \<and> split_sep (CHR 0x0A)
        (''glnxa64'' @ newline
           @ ''/usr/local/MATLAB/R2022a/bin/glnxa64'' @ newline
           @ ''/usr/local/MATLAB/R2022a/extern/engines/python/dist/matlab/engine/glnxa64'' @ newline
           @ ''/usr/local/MATLAB/R2022a/extern/bin/glnxa64'') =
       [''glnxa64'', ''/usr/local/MATLAB/R2022a/bin/glnxa64'',
        ''/usr/local/MATLAB/R2022a/extern/engines/python/dist/matlab/engine/glnxa64'',
        ''/usr/local/MATLAB/R2022a/extern/bin/glnxa64'']"
proof -
  let ?root = "''/usr/local/MATLAB/R2022a''"
  have tag: "arch linux_finder \<in> ARCH_TAGS" by (simp add: linux_finder_def ARCH_TAGS_def)
  have root: "if platform_system linux_host = ''Windows''
       then snd (ntpath_splitdrive ?root) \<noteq> [] \<and> last ?root \<notin> nt_seps
       else ?root \<noteq> [] \<and> last ?root \<noteq> CHR ''/''"
    by (simp add: linux_host_def)
  have op: "\<not> open_w_fails linux_host" by code_simp
  have enc: "list_all (can_encode linux_host)
      (four_lines (os_sep linux_host) ?root (arch linux_finder))" by code_simp
  have loc: "file_location linux_host = ''/home/user/engine/src/matlab/engine/_arch.txt''"
    by code_simp
  have nl: "CHR 0x0A \<notin> set ?root" by simp
  have content: "four_lines ''/'' ?root ''glnxa64'' =
      ''glnxa64'' @ newline
           @ ''/usr/local/MATLAB/R2022a/bin/glnxa64'' @ newline
           @ ''/usr/local/MATLAB/R2022a/extern/engines/python/dist/matlab/engine/glnxa64'' @ newline
           @ ''/usr/local/MATLAB/R2022a/extern/bin/glnxa64''"
    by (simp add: four_lines_def)
  have sep: "os_sep linux_host = ''/''" by (simp add: os_sep_def posix_sep_def linux_host_def)
  have ar: "arch linux_finder = ''glnxa64''" by (simp add: linux_finder_def)
  from write_text_file_four_lines [OF tag root op enc, of Map.empty] nl
  have "write_text_file linux_host linux_finder ?root Map.empty =
      (Inr (), [file_location linux_host \<mapsto> four_lines (os_sep linux_host) ?root (arch linux_finder)])"
    and "split_sep (CHR 0x0A) (four_lines (os_sep linux_host) ?root (arch linux_finder)) =
      [arch linux_finder,
       ?root @ os_sep linux_host @ ''bin'' @ os_sep linux_host @ arch linux_finder,
       ?root @ os_sep linux_host @ ''extern'' @ os_sep linux_host @ ''engines'' @ os_sep linux_host
         @ ''python'' @ os_sep linux_host @ ''dist'' @ os_sep linux_host @ ''matlab''
         @ os_sep linux_host @ ''engine'' @ os_sep linux_host @ arch linux_finder,
       ?root @ os_sep linux_host @ ''extern'' @ os_sep linux_host @ ''bin'' @ os_sep linux_host
         @ arch linux_finder]"
    by blast+
  then show ?thesis using op by (simp add: content loc sep ar)
qed

text \<open>
  C3 as stated joins with the slash for every root and tag, and writes four
  lines on every machine. On Windows, for the root \<open>C:\<close>, backslash, \<open>MATLAB\<close>
  and the tag \<open>win64\<close>, the lines are joined with the backslash, and after the
  bare drive \<open>C:\<close> no separator is put. In a working directory without
  \<open>src/matlab/engine\<close>, \<open>open\<close> raises and nothing is written. For a root that
  cannot be encoded the second write raises and the file holds one line. The
  root \<open>/\<close> is not followed by a second slash. A root with a newline in its
  name gives a file of seven lines.
\<close>

theorem write_text_file_other_outcomes:
  "fst (write_text_file windows_host windows_finder windows_root Map.empty) = Inr ()
   \<and> snd (write_text_file windows_host windows_finder windows_root Map.empty)
        (file_location windows_host) = Some (four_lines [nt_sep] windows_root ''win64'')
   \<and> four_lines [nt_sep] windows_root ''win64'' \<noteq> four_lines ''/'' windows_root ''win64''
   \<and> snd (write_text_file windows_host windows_finder ''C:'' Map.empty)
        (file_location windows_host) \<noteq> Some (four_lines [nt_sep] ''C:'' ''win64'')
   \<and> open_w_fails (elsewhere linux_host)
   \<and> fst (write_text_file (elsewhere linux_host) linux_finder ''/opt/y'' Map.empty) =
       Inl (OSError ''/src/matlab/engine/_arch.txt'')
   \<and> snd (write_text_file (elsewhere linux_host) linux_finder ''/opt/y'' Map.empty)
        ''/src/matlab/engine/_arch.txt'' = None
   \<and> fst (write_text_file undecodable_host linux_finder undecodable_root Map.empty) =
       Inl (UnicodeEncodeError (undecodable_root @ ''/bin/glnxa64'' @ newline))
   \<and> snd (write_text_file undecodable_host linux_finder undecodable_root Map.empty)
        (file_location undecodable_host) = Some (''glnxa64'' @ newline)
   \<and> snd (write_text_file linux_host linux_finder ''/'' Map.empty) (file_location linux_host) =
       Some (''glnxa64'' @ newline @ ''/bin/glnxa64'' @ newline
             @ ''/extern/engines/python/dist/matlab/engine/glnxa64'' @ newline
             @ ''/extern/bin/glnxa64'')
   \<and> snd (write_text_file linux_host linux_finder ''/'' Map.empty) (file_location linux_host) \<noteq>
       Some (four_lines ''/'' ''/'' ''glnxa64'')
   \<and> snd (write_text_file linux_host linux_finder (''/opt/a'' @ newline @ ''b'') Map.empty)
        (file_location linux_host) = Some (four_lines ''/'' (''/opt/a'' @ newline @ ''b'') ''glnxa64'')
   \<and> length (split_sep (CHR 0x0A) (four_lines ''/'' (''/opt/a'' @ newline @ ''b'') ''glnxa64'')) = 7"
  by code_simp

subsection \<open>The run\<close>





text \<open>
  C9, as amended. On Linux and macOS with Python 3.8 or 3.9, when the default
  install path exists, \<open>run\<close> hands that path to \<open>write_text_file\<close>, with the
  architecture tag of the platform, and ends as that call ends. Nothing is
  assumed of the rest of the file system: neither \<open>VersionInfo.xml\<close> nor the
  \<open>MATLAB\<close> file is looked at, and the path need not be a directory. When the
  output file can be opened and its text encoded, the run succeeds and the
  file holds the four lines for the default path.
\<close>

theorem default_install_accepted:
  assumes "platform_system h = ''Linux'' \<or> platform_system h = ''Darwin''"
    and "version_major h = 3" and "version_minor h = 8 \<or> version_minor h = 9"
    and "DEFAULT_INSTALLS (platform_system h) = Some d" and "path_exists h d"
  defines "tag \<equiv> (if platform_system h = ''Linux'' then ''glnxa64''
                   else if mac_ver_machine h = ''arm64'' then ''maca64'' else ''maci64'')"
  shows "(\<exists>s. arch s = tag \<and> run h st = write_text_file h s d st)
       \<and> (\<not> open_w_fails h \<and> list_all (can_encode h) (four_lines ''/'' d tag) \<longrightarrow>
            run h st = (Inr (), st(file_location h \<mapsto> four_lines ''/'' d tag)))"
proof -
  have d: "d \<noteq> [] \<and> last d \<noteq> CHR ''/''"
    using assms(1,4) by (auto simp: DEFAULT_INSTALLS_def MATLAB_REL_def)
  have nw: "platform_system h \<noteq> ''Windows''" using assms(1) by auto
  note py = python_ver_supported [OF assms(2,3)]
  have tags: "tag \<in> ARCH_TAGS" by (simp add: tag_def ARCH_TAGS_def)
  have "\<exists>s. arch s = tag \<and> run h st = write_text_file h s d st"
    using assms(1)
  proof
    assume l: "platform_system h = ''Linux''"
    let ?s = "init_finder\<lparr>platform := ''Linux'', path_name := ''LD_LIBRARY_PATH'',
                arch := ''glnxa64'',
                python_ver := ''3.'' @ (if version_minor h = 8 then ''8'' else ''9'')\<rparr>"
    have "run h st = write_text_file h ?s d st"
      using l assms(4,5) by (simp add: run_cases setup_linux [OF l] py)
    moreover have "arch ?s = tag" using l by (simp add: tag_def)
    ultimately show ?thesis by blast
  next
    assume m: "platform_system h = ''Darwin''"
    let ?s = "init_finder\<lparr>platform := ''Darwin'', path_name := ''DYLD_LIBRARY_PATH'',
                arch := (if mac_ver_machine h = ''arm64'' then ''maca64'' else ''maci64''),
                python_ver := ''3.'' @ (if version_minor h = 8 then ''8'' else ''9'')\<rparr>"
    have "run h st = write_text_file h ?s d st"
      using m assms(4,5) by (simp add: run_cases setup_darwin [OF m] py)
    moreover have "arch ?s = tag" using m by (simp add: tag_def)
    ultimately show ?thesis by blast
  qed
  then obtain s where s: "arch s = tag" "run h st = write_text_file h s d st" by blast
  have "run h st = (Inr (), st(file_location h \<mapsto> four_lines ''/'' d tag))"
    if "\<not> open_w_fails h \<and> list_all (can_encode h) (four_lines ''/'' d tag)"
  proof -
    have "write_text_file h s d st =
        (Inr (), st(file_location h \<mapsto> four_lines (os_sep h) d (arch s)))"
      using that tags d nw s(1)
      by (intro write_text_file_lines) (simp_all add: os_sep_def posix_sep_def)
    then show ?thesis using s nw by (simp add: os_sep_def posix_sep_def)
  qed
  with s show ?thesis by blast
qed

text \<open>
  The default path is a regular file: there is no \<open>VersionInfo.xml\<close> and no
  \<open>MATLAB\<close> file below it.
\<close>

theorem default_install_accepted_witness:
  "isfile default_host ''/usr/local/MATLAB/R2022a''
   \<and> \<not> isdir default_host ''/usr/local/MATLAB/R2022a''
   \<and> \<not> isfile default_host ''/usr/local/MATLAB/R2022a/VersionInfo.xml''
   \<and> \<not> isfile default_host ''/usr/local/MATLAB/R2022a/bin/glnxa64/MATLAB''
   \<and> \<not> open_w_fails default_host
   \<and> run default_host Map.empty =
       (Inr (),
        [''/home/user/engine/src/matlab/engine/_arch.txt'' \<mapsto>
           four_lines ''/'' ''/usr/local/MATLAB/R2022a'' ''glnxa64''])"
proof -
  let ?d = "''/usr/local/MATLAB/R2022a''"
  have f: "isfile default_host ?d" "\<not> isdir default_host ?d"
    "\<not> isfile default_host ''/usr/local/MATLAB/R2022a/VersionInfo.xml''"
    "\<not> isfile default_host ''/usr/local/MATLAB/R2022a/bin/glnxa64/MATLAB''"
    by code_simp+
  have p: "platform_system default_host = ''Linux'' \<or> platform_system default_host = ''Darwin''"
    by (simp add: default_host_def linux_host_def)
  have l: "platform_system default_host = ''Linux''"
    by (simp add: default_host_def linux_host_def)
  have v: "version_major default_host = 3"
    "version_minor default_host = 8 \<or> version_minor default_host = 9"
    by (simp_all add: default_host_def linux_host_def)
  have di: "DEFAULT_INSTALLS (platform_system default_host) = Some ?d" by code_simp
  have ex: "path_exists default_host ?d" by code_simp
  have op: "\<not> open_w_fails default_host" by code_simp
  have enc: "list_all (can_encode default_host) (four_lines ''/'' ?d ''glnxa64'')" by code_simp
  have loc: "file_location default_host = ''/home/user/engine/src/matlab/engine/_arch.txt''"
    by code_simp
  have "run default_host Map.empty =
      (Inr (), [file_location default_host \<mapsto> four_lines ''/'' ?d ''glnxa64''])"
    using default_install_accepted [OF p v di ex, of Map.empty] op enc l by simp
  then show ?thesis using f op by (simp add: loc)
qed

text \<open>
  C9 as stated has no condition on the interpreter or on the output file.
  Under Python 3.11 the run fails with \<open>unsupported_python\<close> before the default
  path is looked at, although it exists. In a working directory without
  output directory the default path is accepted, \<open>open\<close> raises, and nothing
  is written.
\<close>

theorem default_install_not_accepted:
  "platform_system python311_host = ''Linux''
   \<and> DEFAULT_INSTALLS (platform_system python311_host) = Some ''/usr/local/MATLAB/R2022a''
   \<and> path_exists python311_host ''/usr/local/MATLAB/R2022a''
   \<and> fst (run python311_host Map.empty) =
       Inl (unsupported_python ''3.11'' (str_supported python311_host))
   \<and> snd (run python311_host Map.empty) (file_location python311_host) = None
   \<and> path_exists (elsewhere default_host) ''/usr/local/MATLAB/R2022a''
   \<and> fst (run (elsewhere default_host) Map.empty) =
       Inl (OSError ''/src/matlab/engine/_arch.txt'')
   \<and> snd (run (elsewhere default_host) Map.empty) ''/src/matlab/engine/_arch.txt'' = None"
  by code_simp

subsection \<open>The search-path scan\<close>

text \<open>
  C2, as amended. Let the search-path variable list the entries \<open>pre\<close>, then
  \<open>c\<close>, then \<open>rest\<close>, where \<open>c\<close> passes: it ends with \<open>bin/<arch>\<close>, with or
  without one trailing separator, the file \<open>MATLAB\<close> is directly inside it, and
  the \<open>VersionInfo.xml\<close> of its root, two levels up and normalised, carries the
  expected release. If no entry of \<open>pre\<close> passes and none of them is an
  examined entry whose \<open>VersionInfo.xml\<close> does not parse, then
  \<open>search_path_for_directory_unix\<close> returns the root of \<open>c\<close> when it is a
  directory, and fails with \<open>dir_not_found\<close> otherwise. The entries of \<open>rest\<close>
  play no part, whatever they hold.
\<close>

theorem search_returns_first_passing:
  assumes "environ h (path_name s) = Some v"
    and "split_sep posix_pathsep v = pre @ c # rest"
    and "\<forall>p \<in> set pre. \<not> raises (endings_of s) h p \<and> \<not> passes (endings_of s) h p"
    and "passes (endings_of s) h c"
  shows "search_path_for_directory_unix h s =
           (if isdir h (possible_root_of c)
            then Inr (possible_root_of c, s\<lparr>found_matlab := Some MATLAB_REL\<rparr>)
            else Inl (dir_not_found (possible_root_of c)))"
proof -
  have "create_path_list h s = Inr (pre @ c # rest)"
    using assms(1,2) by (simp add: create_path_list_def)
  moreover have "scan_dirs h (endings_of s) (pre @ c # rest) ([], s) =
      Inr (possible_root_of c, s\<lparr>found_matlab := Some MATLAB_REL\<rparr>)"
    using assms(3,4) by (rule scan_dirs_first_pass)
  ultimately show ?thesis
    by (simp add: search_path_for_directory_unix_def possible_root_nonempty)
qed

text \<open>
  The example machine: the first entry holds another release, the second
  passes with a trailing separator, the third, which would raise, is never
  looked at.
\<close>

theorem search_returns_first_passing_witness:
  "\<not> raises (endings_of linux_finder) linux_host ''/opt/x/bin/glnxa64''
   \<and> \<not> passes (endings_of linux_finder) linux_host ''/opt/x/bin/glnxa64''
   \<and> passes (endings_of linux_finder) linux_host ''/opt/y/bin/glnxa64/''
   \<and> raises (endings_of linux_finder) linux_host ''/opt/z/bin/glnxa64''
   \<and> search_path_for_directory_unix linux_host linux_finder =
       Inr (''/opt/y'', linux_finder\<lparr>found_matlab := Some ''R2022a''\<rparr>)"
proof -
  let ?e = "endings_of linux_finder"
  have env: "environ linux_host (path_name linux_finder) =
      Some ''/opt/x/bin/glnxa64:/opt/y/bin/glnxa64/:/opt/z/bin/glnxa64''"
    by (simp add: linux_host_def linux_finder_def)
  have split: "split_sep posix_pathsep ''/opt/x/bin/glnxa64:/opt/y/bin/glnxa64/:/opt/z/bin/glnxa64''
      = [''/opt/x/bin/glnxa64''] @ ''/opt/y/bin/glnxa64/'' # [''/opt/z/bin/glnxa64'']"
    by code_simp
  have x: "\<not> raises ?e linux_host ''/opt/x/bin/glnxa64''"
      "\<not> passes ?e linux_host ''/opt/x/bin/glnxa64''"
    by code_simp+
  have y: "passes ?e linux_host ''/opt/y/bin/glnxa64/''" by code_simp
  have z: "raises ?e linux_host ''/opt/z/bin/glnxa64''" by code_simp
  have root: "possible_root_of ''/opt/y/bin/glnxa64/'' = ''/opt/y''" by code_simp
  have dir: "isdir linux_host ''/opt/y''" by code_simp
  have "search_path_for_directory_unix linux_host linux_finder =
       Inr (''/opt/y'', linux_finder\<lparr>found_matlab := Some ''R2022a''\<rparr>)"
    using search_returns_first_passing [OF env split _ y] x root dir
    by (simp add: MATLAB_REL_def)
  with x y z show ?thesis by simp
qed

text \<open>
  C2 as stated holds for every list of entries. With the entry of \<open>/opt/z\<close>,
  whose \<open>VersionInfo.xml\<close> does not parse, before the first passing entry, the
  scan ends with the parse error and returns no root.
\<close>

theorem search_stops_at_parse_error:
  "passes (endings_of linux_finder) (with_path ''/opt/z/bin/glnxa64:/opt/y/bin/glnxa64/'')
     ''/opt/y/bin/glnxa64/''
   \<and> \<not> passes (endings_of linux_finder) (with_path ''/opt/z/bin/glnxa64:/opt/y/bin/glnxa64/'')
     ''/opt/z/bin/glnxa64''
   \<and> create_path_list (with_path ''/opt/z/bin/glnxa64:/opt/y/bin/glnxa64/'') linux_finder =
       Inr [''/opt/z/bin/glnxa64'', ''/opt/y/bin/glnxa64/'']
   \<and> search_path_for_directory_unix (with_path ''/opt/z/bin/glnxa64:/opt/y/bin/glnxa64/'')
       linux_finder = Inl (ParseError ''/opt/z/VersionInfo.xml'')"
  by code_simp

text \<open>
  C10. A call of \<open>verify_matlab_release\<close> that returns leaves in \<open>found_matlab\<close>
  the release text it read, and leaves the field as it was when
  \<open>VersionInfo.xml\<close> is absent or has no \<open>release\<close> child. After a scan that
  found no root, \<open>found_matlab\<close> is the release text most recently read along
  the entries, or its value before the scan when none was read; and the
  error of the scan is chosen from that text, so it may name a release read
  from an entry before the last.
\<close>

theorem found_matlab_most_recent_release:
  "(verify_matlab_release h s root = Inr (b, s') \<longrightarrow>
      found_matlab s' = (case release_read h root of Some t \<Rightarrow> t | None \<Rightarrow> found_matlab s))
   \<and> (scan_dirs h endings paths ([], s) = Inr ([], s') \<longrightarrow>
      found_matlab s' = most_recent_release endings h paths (found_matlab s))
   \<and> (create_path_list h s = Inr paths
      \<and> scan_dirs h (endings_of s) paths ([], s) = Inr ([], s') \<longrightarrow>
      search_path_for_directory_unix h s =
        (case most_recent_release (endings_of s) h paths (found_matlab s) of
           None \<Rightarrow> Inl (set_path (path_name s) (arch s))
         | Some fm \<Rightarrow>
             if fm = [] then Inl (set_path (path_name s) (arch s))
             else
               (case VER_TO_REL fm of
                  Some rel \<Rightarrow> Inl (incompatible_ver rel fm)
                | None \<Rightarrow> Inl minimum_required)))"
proof (intro conjI impI)
  assume "verify_matlab_release h s root = Inr (b, s')"
  then show "found_matlab s' = (case release_read h root of Some t \<Rightarrow> t | None \<Rightarrow> found_matlab s)"
    by (auto simp: verify_matlab_release_cases split: if_splits option.splits)
next
  assume "scan_dirs h endings paths ([], s) = Inr ([], s')"
  from scan_dirs_no_winner [OF this]
  show "found_matlab s' = most_recent_release endings h paths (found_matlab s)" by simp
next
  assume a: "create_path_list h s = Inr paths
      \<and> scan_dirs h (endings_of s) paths ([], s) = Inr ([], s')"
  then have "found_matlab s' = most_recent_release (endings_of s) h paths (found_matlab s)"
    using scan_dirs_no_winner [of h "endings_of s" paths s s'] by simp
  then show "search_path_for_directory_unix h s =
        (case most_recent_release (endings_of s) h paths (found_matlab s) of
           None \<Rightarrow> Inl (set_path (path_name s) (arch s))
         | Some fm \<Rightarrow>
             if fm = [] then Inl (set_path (path_name s) (arch s))
             else
               (case VER_TO_REL fm of
                  Some rel \<Rightarrow> Inl (incompatible_ver rel fm)
                | None \<Rightarrow> Inl minimum_required))"
    using search_no_winner [of h s paths s'] a by simp
qed

text \<open>
  The entry of \<open>/opt/v\<close> records \<open>9.11\<close>; the entry of \<open>/opt/w\<close> after it has no
  \<open>VersionInfo.xml\<close> and leaves the field alone; the error names \<open>9.11\<close>.
\<close>

theorem found_matlab_most_recent_release_witness:
  "recorded (endings_of linux_finder) linux_host ''/opt/v/bin/glnxa64'' = Some (Some ''9.11'')
   \<and> recorded (endings_of linux_finder) linux_host ''/opt/w/bin/glnxa64'' = None
   \<and> scan_dirs linux_host (endings_of linux_finder) [''/opt/v/bin/glnxa64'', ''/opt/w/bin/glnxa64'']
        ([], linux_finder) = Inr ([], linux_finder\<lparr>found_matlab := Some ''9.11''\<rparr>)
   \<and> search_path_for_directory_unix (with_path ''/opt/v/bin/glnxa64:/opt/w/bin/glnxa64'')
        linux_finder = Inl (incompatible_ver ''R2021b'' ''9.11'')"
proof -
  let ?h = "with_path ''/opt/v/bin/glnxa64:/opt/w/bin/glnxa64''"
  let ?ps = "[''/opt/v/bin/glnxa64'', ''/opt/w/bin/glnxa64'']"
  let ?s' = "linux_finder\<lparr>found_matlab := Some ''9.11''\<rparr>"
  have r: "recorded (endings_of linux_finder) linux_host ''/opt/v/bin/glnxa64'' = Some (Some ''9.11'')"
    "recorded (endings_of linux_finder) linux_host ''/opt/w/bin/glnxa64'' = None"
    by code_simp+
  have p: "create_path_list ?h linux_finder = Inr ?ps" by code_simp
  have sc: "scan_dirs ?h (endings_of linux_finder) ?ps ([], linux_finder) = Inr ([], ?s')"
    by code_simp
  have sc': "scan_dirs linux_host (endings_of linux_finder) ?ps ([], linux_finder) = Inr ([], ?s')"
    by code_simp
  have m: "most_recent_release (endings_of linux_finder) ?h ?ps (found_matlab linux_finder) = Some ''9.11''"
    using found_matlab_most_recent_release [of ?h linux_finder _ _ ?s' "endings_of linux_finder" ?ps] sc
    by simp
  have v: "VER_TO_REL ''9.11'' = Some ''R2021b''" by code_simp
  have "search_path_for_directory_unix ?h linux_finder = Inl (incompatible_ver ''R2021b'' ''9.11'')"
    using found_matlab_most_recent_release [of ?h linux_finder _ _ ?s' "endings_of linux_finder" ?ps]
      p sc m v by simp
  with r sc' show ?thesis by simp
qed

text \<open>
  C1 says that a release read from a rejected entry, when it is a known older
  supported release, gives \<open>incompatible_ver\<close> naming the package version to
  install. The scan looks the release text up among the keys of \<open>VER_TO_REL\<close>,
  which are version numbers, so no release name is found there: for the
  entry of \<open>/opt/x\<close>, which holds R2021b (version 9.11 in the table), the error
  is \<open>minimum_required\<close>, whose text says that R2019a and later are supported.
  The branch that raises it is commented in the source as the one for a
  release older than R2019a.
\<close>

theorem known_release_reported_as_too_old:
  "create_path_list (with_path ''/opt/x/bin/glnxa64'') linux_finder = Inr [''/opt/x/bin/glnxa64'']
   \<and> release_read (with_path ''/opt/x/bin/glnxa64'') ''/opt/x'' = Some (Some ''R2021b'')
   \<and> VER_TO_REL ''9.11'' = Some ''R2021b''
   \<and> VER_TO_REL ''R2021b'' = None
   \<and> search_path_for_directory_unix (with_path ''/opt/x/bin/glnxa64'') linux_finder =
       Inl minimum_required
   \<and> search_path_for_directory_unix (with_path ''/opt/x/bin/glnxa64'') linux_finder \<noteq>
       Inl (incompatible_ver ''R2021b'' ''9.11'')
   \<and> message minimum_required =
       ''No compatible version of MATLAB was found. This feature supports MATLAB R2019a and later.''"
  by code_simp


end
